theory Spec2Isabelle
  imports Main "HOL-Library.Word"
begin

section \<open>Strings shared by the hooks\<close>

text \<open>
  \<^verbatim>\<open>s.startsWith(p)\<close> and \<^verbatim>\<open>s.substring(n)\<close> of the client code. The TypeScript strings
  that reach these functions are request paths; they are modelled as character lists.
\<close>

definition startsWith :: "string \<Rightarrow> string \<Rightarrow> bool" where
  "startsWith s p = (take (length p) s = p)"

definition substring :: "string \<Rightarrow> nat \<Rightarrow> string" where
  "substring s n = drop n s"

section \<open>The request executor (hook \<open>useApiWithRetry\<close>)\<close>

datatype httpMethod = Get | Post | Put | Delete

text \<open>The TypeScript type of a method is the string union "get" | "post" | "put" | "delete".\<close>

fun methodString :: "httpMethod \<Rightarrow> string" where
  "methodString Get = ''get''"
| "methodString Post = ''post''"
| "methodString Put = ''put''"
| "methodString Delete = ''delete''"

text \<open>\<^verbatim>\<open>const getDebounceKey = (method, url) => `${method}:${url}`\<close>\<close>

definition getDebounceKey :: "httpMethod \<Rightarrow> string \<Rightarrow> string" where
  "getDebounceKey m url = methodString m @ '':'' @ url"

text \<open>\<^verbatim>\<open>const cleanUrl = url.startsWith("/api/") ? url.substring(4) : url\<close>\<close>

definition cleanUrl :: "string \<Rightarrow> string" where
  "cleanUrl url = (if startsWith url ''/api/'' then substring url 4 else url)"

text \<open>The key under which \<open>executeRequest\<close> and \<open>debounce\<close> file a request.\<close>

definition requestKey :: "httpMethod \<Rightarrow> string \<Rightarrow> string" where
  "requestKey m url = getDebounceKey m (cleanUrl url)"

text \<open>
  The options of the hook. \<open>maxRetries\<close> counts retries, so it is a natural number; the
  delays and the clock are milliseconds. \<open>onErrorGiven\<close> says whether the caller passed
  an \<open>onError\<close> callback.
\<close>

record config =
  maxRetries :: nat
  retryDelay :: int
  debounceTime :: int
  onErrorGiven :: bool

text \<open>
  What one axios call does: it answers, or it throws. A thrown axios error is reported
  as \<open>API request failed: \<close> followed by its message, any other error as it is.
\<close>

datatype failure = AxiosError string | OtherError string

datatype 'a outcome = Response 'a | Failed failure

fun finalError :: "failure \<Rightarrow> string" where
  "finalError (AxiosError msg) = ''API request failed: '' @ msg"
| "finalError (OtherError msg) = msg"

text \<open>
  The effects of the executor on the outside, in the order they happen: a network call
  (method and cleaned path), the wait before a retry, the \<open>onError\<close> callback.
\<close>

datatype effect = NetCall httpMethod string | Sleep int | OnError string

fun isNetCall :: "effect \<Rightarrow> bool" where
  "isNetCall (NetCall m u) = True"
| "isNetCall e = False"

definition netCalls :: "effect list \<Rightarrow> nat" where
  "netCalls es = length (filter isNetCall es)"

text \<open>
  The state of one hook instance: the two React state cells and the two refs that
  \<open>executeRequest\<close> reads and writes. A key missing from a ref reads as \<^verbatim>\<open>undefined\<close>.
\<close>

record execState =
  isLoading :: bool
  error :: "string option"
  lastRequestTimes :: "string \<rightharpoonup> int"
  pendingRequests :: "string \<rightharpoonup> bool"

text \<open>The outside world: \<^verbatim>\<open>Date.now()\<close> and the effects so far.\<close>

record world =
  clock :: int
  effects :: "effect list"

text \<open>
  \<open>executeRequest cfg net m url retryCount\<close>. The network is a function \<open>net\<close> from the
  number of calls made so far to the time the next call takes and its outcome. The
  result is the response, or \<open>None\<close> for the \<^verbatim>\<open>null\<close> of a skipped or finally failed
  request. The recursion is the retry of the \<^verbatim>\<open>catch\<close> block; the \<^verbatim>\<open>finally\<close> block
  clears \<open>isLoading\<close> on every way out.
\<close>

function executeRequest ::
  "config \<Rightarrow> (nat \<Rightarrow> int \<times> 'a outcome) \<Rightarrow> httpMethod \<Rightarrow> string \<Rightarrow> nat
     \<Rightarrow> execState \<times> world \<Rightarrow> 'a option \<times> execState \<times> world" where
  "executeRequest cfg net m url retryCount (s, w) =
    (let s1 = s\<lparr>isLoading := True, error := None\<rparr>;
         debounceKey = getDebounceKey m (cleanUrl url);
         now = clock w;
         lastRequestTime = (case lastRequestTimes s1 debounceKey of None \<Rightarrow> 0 | Some t \<Rightarrow> t)
     in if now - lastRequestTime < debounceTime cfg \<and> retryCount = 0
        then (None, s1\<lparr>isLoading := False\<rparr>, w)
        else if pendingRequests s1 debounceKey = Some True \<and> retryCount = 0
        then (None, s1\<lparr>isLoading := False\<rparr>, w)
        else
          let s2 = s1\<lparr>pendingRequests := (pendingRequests s1)(debounceKey \<mapsto> True),
                      lastRequestTimes := (lastRequestTimes s1)(debounceKey \<mapsto> now)\<rparr>;
              w1 = w\<lparr>clock := now + fst (net (netCalls (effects w))),
                     effects := effects w @ [NetCall m (cleanUrl url)]\<rparr>
          in case snd (net (netCalls (effects w))) of
               Response r \<Rightarrow>
                 (Some r,
                  s2\<lparr>pendingRequests := (pendingRequests s2)(debounceKey \<mapsto> False),
                     isLoading := False\<rparr>,
                  w1)
             | Failed e \<Rightarrow>
                 if retryCount < maxRetries cfg
                 then
                   (case executeRequest cfg net m url (retryCount + 1)
                           (s2, w1\<lparr>clock := clock w1 + retryDelay cfg,
                                   effects := effects w1 @ [Sleep (retryDelay cfg)]\<rparr>) of
                      (res, s3, w3) \<Rightarrow> (res, s3\<lparr>isLoading := False\<rparr>, w3))
                 else
                   (None,
                    s2\<lparr>error := Some (finalError e),
                       pendingRequests := (pendingRequests s2)(debounceKey \<mapsto> False),
                       isLoading := False\<rparr>,
                    w1\<lparr>effects := effects w1 @
                          (if onErrorGiven cfg then [OnError (finalError e)] else [])\<rparr>))"
  by pat_completeness auto
termination
  by (relation "measure (\<lambda>(cfg, net, m, url, retryCount, sw). maxRetries cfg - retryCount)") auto

declare executeRequest.simps [simp del]

text \<open>
  A fresh call is let through when it is neither throttled nor a duplicate of a call in
  flight; a retry is always let through.
\<close>

definition admitted :: "config \<Rightarrow> httpMethod \<Rightarrow> string \<Rightarrow> nat \<Rightarrow> execState \<Rightarrow> world \<Rightarrow> bool" where
  "admitted cfg m url retryCount s w =
     (retryCount = 0 \<longrightarrow>
        \<not> clock w - (case lastRequestTimes s (requestKey m url) of None \<Rightarrow> 0 | Some t \<Rightarrow> t)
            < debounceTime cfg
        \<and> pendingRequests s (requestKey m url) \<noteq> Some True)"

text \<open>
  A sample run: the defaults of the hook, a network whose first two calls fail and whose
  third answers, a hook that has made no request yet, and a hook whose key \<open>get:/x\<close> is
  both pending and freshly used.
\<close>

definition defaultConfig :: config where
  "defaultConfig = \<lparr>maxRetries = 3, retryDelay = 1000, debounceTime = 1000, onErrorGiven = True\<rparr>"

definition failTwice :: "nat \<Rightarrow> int \<times> string outcome" where
  "failTwice n = (if n < 2 then (30, Failed (AxiosError ''Network Error'')) else (40, Response ''ok''))"

definition freshExec :: execState where
  "freshExec = \<lparr>isLoading = False, error = None,
                lastRequestTimes = Map.empty, pendingRequests = Map.empty\<rparr>"

definition busyExec :: execState where
  "busyExec = \<lparr>isLoading = True, error = None,
               lastRequestTimes = [''get:/x'' \<mapsto> 4990], pendingRequests = [''get:/x'' \<mapsto> True]\<rparr>"

definition sampleWorld :: world where
  "sampleWorld = \<lparr>clock = 5000, effects = []\<rparr>"

section \<open>The debounced variants (\<open>debounce\<close> of \<open>useApiWithRetry\<close>)\<close>

text \<open>
  A timeout that \<open>debounce\<close> has set and that has neither fired nor been cleared: its
  handle, the time it is due, and what its callback closes over, namely the request and
  the \<open>resolve\<close> function of the promise handed to that caller (promises are numbered in
  the order of their creation).
\<close>

record debounceTimeout =
  dHandle :: nat
  dDue :: int
  dMethod :: httpMethod
  dUrl :: string
  dPromise :: nat

text \<open>
  The hook with its \<open>debounceTimers\<close> ref, the pending timeouts of the JavaScript
  runtime, and the promises resolved so far with the value each was resolved with.
  Handles start at 1, so a stored handle is truthy.
\<close>

record 'a hook =
  exec :: execState
  debounceTimers :: "string \<rightharpoonup> nat"
  timeouts :: "debounceTimeout list"
  nextHandle :: nat
  nextPromise :: nat
  resolved :: "nat \<rightharpoonup> 'a option"

definition clearTimeout :: "nat \<Rightarrow> debounceTimeout list \<Rightarrow> debounceTimeout list" where
  "clearTimeout h ts = filter (\<lambda>t. dHandle t \<noteq> h) ts"

text \<open>
  \<open>debounce\<close>: clear the timeout stored under the key, if any, then create a new promise and
  a new timeout whose callback will run the request and resolve this new promise. The
  promise is returned to the caller.
\<close>

definition debounce ::
  "config \<Rightarrow> httpMethod \<Rightarrow> string \<Rightarrow> 'a hook \<times> world \<Rightarrow> nat \<times> 'a hook \<times> world" where
  "debounce cfg m url hw =
    (let h = fst hw; w = snd hw;
         debounceKey = getDebounceKey m (cleanUrl url);
         ts = (case debounceTimers h debounceKey of
                 Some old \<Rightarrow> clearTimeout old (timeouts h)
               | None \<Rightarrow> timeouts h);
         t = \<lparr>dHandle = nextHandle h, dDue = clock w + debounceTime cfg,
              dMethod = m, dUrl = url, dPromise = nextPromise h\<rparr>
     in (nextPromise h,
         h\<lparr>debounceTimers := (debounceTimers h)(debounceKey \<mapsto> nextHandle h),
           timeouts := ts @ [t],
           nextHandle := nextHandle h + 1,
           nextPromise := nextPromise h + 1\<rparr>,
         w))"

text \<open>
  The callback of a timeout: \<^verbatim>\<open>executeRequest(method, url, config).then(resolve)\<close>. The
  timeout leaves the pending list, the clock is at least its due time, the request runs
  as a fresh call, and the promise of this timeout is resolved with the result.
\<close>

definition runTimeout ::
  "config \<Rightarrow> (nat \<Rightarrow> int \<times> 'a outcome) \<Rightarrow> debounceTimeout \<Rightarrow> 'a hook \<times> world \<Rightarrow> 'a hook \<times> world" where
  "runTimeout cfg net t hw =
    (let h = fst hw; w = snd hw;
         w1 = w\<lparr>clock := max (clock w) (dDue t)\<rparr>
     in case executeRequest cfg net (dMethod t) (dUrl t) 0 (exec h, w1) of
          (res, e, w2) \<Rightarrow>
            (h\<lparr>exec := e,
               timeouts := clearTimeout (dHandle t) (timeouts h),
               resolved := (resolved h)(dPromise t \<mapsto> res)\<rparr>,
             w2))"

text \<open>
  What can happen to a hook: a caller invokes a debounced variant, time passes, or the
  runtime fires the pending timeout with a given handle (firing a handle that is not
  pending does nothing).
\<close>

datatype debounceEvent = Debounce httpMethod string | Elapse int | Fire nat

fun debounceStep ::
  "config \<Rightarrow> (nat \<Rightarrow> int \<times> 'a outcome) \<Rightarrow> debounceEvent \<Rightarrow> 'a hook \<times> world \<Rightarrow> 'a hook \<times> world" where
  "debounceStep cfg net (Debounce m url) hw = snd (debounce cfg m url hw)"
| "debounceStep cfg net (Elapse d) hw = (fst hw, (snd hw)\<lparr>clock := clock (snd hw) + d\<rparr>)"
| "debounceStep cfg net (Fire n) hw =
     (case filter (\<lambda>t. dHandle t = n) (timeouts (fst hw)) of
        [] \<Rightarrow> hw
      | t # ts \<Rightarrow> runTimeout cfg net t hw)"

fun debounceRun ::
  "config \<Rightarrow> (nat \<Rightarrow> int \<times> 'a outcome) \<Rightarrow> debounceEvent list \<Rightarrow> 'a hook \<times> world \<Rightarrow> 'a hook \<times> world" where
  "debounceRun cfg net [] hw = hw"
| "debounceRun cfg net (e # es) hw = debounceRun cfg net es (debounceStep cfg net e hw)"

text \<open>
  A promise is starved when it has been created, is not resolved, and no pending timeout
  carries its \<open>resolve\<close>. Nothing that can happen to the hook changes that.
\<close>

definition starved :: "nat \<Rightarrow> 'a hook \<Rightarrow> bool" where
  "starved p h =
     (resolved h p = None \<and> p < nextPromise h \<and> (\<forall>t \<in> set (timeouts h). dPromise t \<noteq> p))"

text \<open>A hook that has made no request and set no timeout; a network that always answers.\<close>

definition freshHook :: "string hook" where
  "freshHook = \<lparr>exec = freshExec, debounceTimers = Map.empty, timeouts = [],
                nextHandle = 1, nextPromise = 0, resolved = Map.empty\<rparr>"

definition alwaysOk :: "nat \<Rightarrow> int \<times> string outcome" where
  "alwaysOk n = (40, Response ''ok'')"

text \<open>
  Two debounced GETs of the same path, 500 ms apart, at 5000 and 5500 on the clock: the
  second call clears the timeout of the first and sets its own, due at 6500.
\<close>

definition twoRapidCalls :: "debounceEvent list" where
  "twoRapidCalls = [Debounce Get ''/x'', Elapse 500, Debounce Get ''/x'']"

section \<open>The streaming download (hook \<open>useDownloadProgress\<close>)\<close>

subsection \<open>Strings of the response\<close>

text \<open>
  A header value returned by \<^verbatim>\<open>response.headers.get\<close> is a byte string: every code unit
  is below 256, which is what a \<open>char\<close> is. A file name is a JavaScript string in general,
  a list of UTF-16 code units. \<open>units\<close> reads a byte string as a JavaScript string.
\<close>

type_synonym jsString = "nat list"

definition units :: "string \<Rightarrow> jsString" where
  "units s = map of_char s"

text \<open>ASCII lower case, for the \<^verbatim>\<open>i\<close> flag of the two patterns below.\<close>

definition lowerAscii :: "char \<Rightarrow> char" where
  "lowerAscii c = (let n = (of_char c :: nat) in if 65 \<le> n \<and> n \<le> 90 then char_of (n + 32) else c)"

definition startsWithIgnoreCase :: "string \<Rightarrow> string \<Rightarrow> bool" where
  "startsWithIgnoreCase s p = (map lowerAscii (take (length p) s) = map lowerAscii p)"

text \<open>The white space of \<^verbatim>\<open>\s\<close> and of \<^verbatim>\<open>parseInt\<close> among the code units below 256.\<close>

definition isSpace :: "char \<Rightarrow> bool" where
  "isSpace c = ((of_char c :: nat) \<in> {9, 10, 11, 12, 13, 32, 160})"

subsection \<open>\<open>decodeURIComponent\<close>\<close>

text \<open>
  The built-in of the language, after the Decode operation of ECMA-262 with an empty
  set of reserved characters. \<open>None\<close> stands for the \<^verbatim>\<open>URIError\<close> it throws. A code unit
  other than \<^verbatim>\<open>%\<close> is copied; \<^verbatim>\<open>%XX\<close> is one octet; an octet with leading one bits
  opens a UTF-8 sequence whose continuation octets must be escaped too, and the sequence
  must be well formed; the code point is appended in UTF-16.
\<close>

definition hexValue :: "char \<Rightarrow> nat option" where
  "hexValue c =
     (let n = (of_char c :: nat) in
      if 48 \<le> n \<and> n \<le> 57 then Some (n - 48)
      else if 65 \<le> n \<and> n \<le> 70 then Some (n - 55)
      else if 97 \<le> n \<and> n \<le> 102 then Some (n - 87)
      else None)"

definition parseHexOctet :: "char \<Rightarrow> char \<Rightarrow> nat option" where
  "parseHexOctet a b =
     (case (hexValue a, hexValue b) of
        (Some x, Some y) \<Rightarrow> Some (16 * x + y)
      | _ \<Rightarrow> None)"

text \<open>The number of leading one bits of an octet.\<close>

definition leadingOnes :: "nat \<Rightarrow> nat" where
  "leadingOnes b =
     (if b < 128 then 0 else if b < 192 then 1 else if b < 224 then 2
      else if b < 240 then 3 else if b < 248 then 4 else 5)"

text \<open>The \<open>k\<close> escaped continuation octets at the head of a string.\<close>

fun continuationOctets :: "nat \<Rightarrow> string \<Rightarrow> nat list option" where
  "continuationOctets 0 s = Some []"
| "continuationOctets (Suc k) (p # a # b # s) =
     (if p = CHR ''%'' then
        (case parseHexOctet a b of
           None \<Rightarrow> None
         | Some c \<Rightarrow> map_option ((#) c) (continuationOctets k s))
      else None)"
| "continuationOctets (Suc k) s = None"

text \<open>
  The code point of a UTF-8 sequence of two to four octets, if the sequence is well
  formed: continuation octets in 80..BF, no overlong form, no surrogate, at most 10FFFF.
\<close>

definition isContinuation :: "nat \<Rightarrow> bool" where
  "isContinuation c = (128 \<le> c \<and> c < 192)"

fun utf8CodePoint :: "nat list \<Rightarrow> nat option" where
  "utf8CodePoint [b, c] =
     (let v = (b - 192) * 64 + (c - 128)
      in if isContinuation c \<and> 128 \<le> v then Some v else None)"
| "utf8CodePoint [b, c, d] =
     (let v = (b - 224) * 4096 + (c - 128) * 64 + (d - 128)
      in if isContinuation c \<and> isContinuation d \<and> 2048 \<le> v \<and> \<not> (55296 \<le> v \<and> v \<le> 57343)
         then Some v else None)"
| "utf8CodePoint [b, c, d, e] =
     (let v = (b - 240) * 262144 + (c - 128) * 4096 + (d - 128) * 64 + (e - 128)
      in if isContinuation c \<and> isContinuation d \<and> isContinuation e
            \<and> 65536 \<le> v \<and> v \<le> 1114111
         then Some v else None)"
| "utf8CodePoint bs = None"

definition utf16Encode :: "nat \<Rightarrow> jsString" where
  "utf16Encode v =
     (if v \<le> 65535 then [v]
      else [55296 + (v - 65536) div 1024, 56320 + (v - 65536) mod 1024])"

function decodeURIComponent :: "string \<Rightarrow> jsString option" where
  "decodeURIComponent [] = Some []"
| "decodeURIComponent (c # cs) =
     (if c \<noteq> CHR ''%'' then map_option ((#) (of_char c)) (decodeURIComponent cs)
      else
        (case cs of
           a # b # rest \<Rightarrow>
             (case parseHexOctet a b of
                None \<Rightarrow> None
              | Some octet \<Rightarrow>
                  let n = leadingOnes octet in
                  if n = 0 then map_option ((#) octet) (decodeURIComponent rest)
                  else if n = 1 \<or> 4 < n then None
                  else
                    (case continuationOctets (n - 1) rest of
                       None \<Rightarrow> None
                     | Some others \<Rightarrow>
                         (case utf8CodePoint (octet # others) of
                            None \<Rightarrow> None
                          | Some v \<Rightarrow>
                              map_option ((@) (utf16Encode v))
                                (decodeURIComponent (drop (3 * (n - 1)) rest)))))
         | _ \<Rightarrow> None))"
  by pat_completeness auto
termination
  by (relation "measure length") auto

declare decodeURIComponent.simps [simp del]

subsection \<open>The file name\<close>

text \<open>
  \<^verbatim>\<open>contentDisposition.match(/filename\*=UTF-8''([^;"\s]+)/i)\<close>: the capture of the leftmost
  match, if there is one. At a position the pattern matches when the text there begins,
  letter case apart, with \<^verbatim>\<open>filename*=UTF-8''\<close> and at least one code unit other than a
  semicolon, a double quote and white space follows; the capture is the longest such run.
\<close>

definition extendedPrefix :: string where
  "extendedPrefix = ''filename*=UTF-8'' @ [CHR 0x27, CHR 0x27]"

definition extendedChar :: "char \<Rightarrow> bool" where
  "extendedChar c = (c \<noteq> CHR '';'' \<and> c \<noteq> CHR 0x22 \<and> \<not> isSpace c)"

fun matchExtended :: "string \<Rightarrow> string option" where
  "matchExtended [] = None"
| "matchExtended (c # cs) =
     (if startsWithIgnoreCase (c # cs) extendedPrefix
         \<and> takeWhile extendedChar (drop (length extendedPrefix) (c # cs)) \<noteq> []
      then Some (takeWhile extendedChar (drop (length extendedPrefix) (c # cs)))
      else matchExtended cs)"

declare matchExtended.simps [simp del]

text \<open>
  \<^verbatim>\<open>contentDisposition.match(/filename="([^"]+)"/i)\<close>: at a position the pattern matches when
  the text there begins, letter case apart, with \<^verbatim>\<open>filename="\<close>, at least one code unit
  other than a double quote follows, and the run of such code units ends at a double
  quote; the capture is that run.
\<close>

definition basicPrefix :: string where
  "basicPrefix = ''filename='' @ [CHR 0x22]"

definition notQuote :: "char \<Rightarrow> bool" where
  "notQuote c = (c \<noteq> CHR 0x22)"

fun matchBasic :: "string \<Rightarrow> string option" where
  "matchBasic [] = None"
| "matchBasic (c # cs) =
     (if startsWithIgnoreCase (c # cs) basicPrefix
         \<and> takeWhile notQuote (drop (length basicPrefix) (c # cs)) \<noteq> []
         \<and> dropWhile notQuote (drop (length basicPrefix) (c # cs)) \<noteq> []
      then Some (takeWhile notQuote (drop (length basicPrefix) (c # cs)))
      else matchBasic cs)"

declare matchBasic.simps [simp del]

text \<open>
  The file name of the download. The \<^verbatim>\<open>try\<close> block covers both patterns, and the second
  pattern is in the \<^verbatim>\<open>else\<close> branch of the first: when the extended parameter is found and
  \<open>decodeURIComponent\<close> throws, the \<^verbatim>\<open>catch\<close> block logs and the name stays the fallback.
  An empty header value is falsy, like a missing one.
\<close>

definition resolveFilename :: "string option \<Rightarrow> jsString \<Rightarrow> jsString" where
  "resolveFilename contentDisposition fallbackFilename =
     (case contentDisposition of
        None \<Rightarrow> fallbackFilename
      | Some h \<Rightarrow>
          if h = [] then fallbackFilename
          else
            (case matchExtended h of
               Some encoded \<Rightarrow>
                 (case decodeURIComponent encoded of
                    Some name \<Rightarrow> name
                  | None \<Rightarrow> fallbackFilename)
             | None \<Rightarrow>
                 (case matchBasic h of
                    Some name \<Rightarrow> units name
                  | None \<Rightarrow> fallbackFilename)))"

subsection \<open>The declared size and the progress\<close>

text \<open>
  \<^verbatim>\<open>parseInt(contentLength, 10)\<close>: leading white space is skipped, a sign is read, then the
  longest run of decimal digits; with no digit the result is \<^verbatim>\<open>NaN\<close>, here \<open>None\<close>.
  (The code holds the result in a double, so it is the exact integer up to \<open>2^53\<close>.)
\<close>

definition isDigit :: "char \<Rightarrow> bool" where
  "isDigit c = (48 \<le> (of_char c :: nat) \<and> (of_char c :: nat) \<le> 57)"

fun digitsValue :: "int \<Rightarrow> string \<Rightarrow> int" where
  "digitsValue acc [] = acc"
| "digitsValue acc (c # cs) = digitsValue (10 * acc + (of_char c - 48)) cs"

definition parseInt10 :: "string \<Rightarrow> int option" where
  "parseInt10 s =
     (let t = dropWhile isSpace s;
          negative = (t \<noteq> [] \<and> hd t = CHR ''-'');
          u = (if t \<noteq> [] \<and> (hd t = CHR ''-'' \<or> hd t = CHR ''+'') then tl t else t);
          ds = takeWhile isDigit u
      in if ds = [] then None
         else Some (if negative then - digitsValue 0 ds else digitsValue 0 ds))"

text \<open>
  \<^verbatim>\<open>const total = contentLength ? parseInt(contentLength, 10) : 0\<close>; a missing or empty
  header gives 0.
\<close>

definition declaredTotal :: "string option \<Rightarrow> int option" where
  "declaredTotal declaredLength =
     (case declaredLength of
        None \<Rightarrow> Some 0
      | Some s \<Rightarrow> if s = [] then Some 0 else parseInt10 s)"

text \<open>
  \<^verbatim>\<open>total > 0\<close>, which is false for \<^verbatim>\<open>NaN\<close>. (The variable \<open>total\<close> of the code is
  \<open>totalBytes\<close> here.)
\<close>

definition totalKnown :: "int option \<Rightarrow> bool" where
  "totalKnown totalBytes = (case totalBytes of None \<Rightarrow> False | Some t \<Rightarrow> 0 < t)"

text \<open>
  \<^verbatim>\<open>Math.round((receivedLength / total) * 100)\<close> for a positive total, in exact arithmetic:
  \<open>Math.round\<close> rounds a half upwards, so the value is the floor of
  \<open>100 * received / total + 1/2\<close>. (The code computes in binary floating point, which can
  differ from the exact value by one when the exact value lies on a half; the bounds
  proved below do not depend on that.)
\<close>

definition percent :: "nat \<Rightarrow> int \<Rightarrow> int" where
  "percent receivedLength totalBytes = (200 * int receivedLength + totalBytes) div (2 * totalBytes)"

subsection \<open>The response and its body\<close>

type_synonym bytes = "8 word list"

text \<open>
  One \<^verbatim>\<open>reader.read()\<close> that does not report the end of the stream: it delivers a chunk
  or it rejects, after so many milliseconds. The body is the list of these reads; the
  read after the last one reports \<open>done\<close>.
\<close>

datatype bodyRead = Chunk nat bytes | ReadFails nat string

record response =
  ok :: bool
  status :: nat
  statusText :: string
  contentLength :: "string option"
  contentType :: "string option"
  contentDisposition :: "string option"
  body :: "bodyRead list option"

text \<open>
  What \<^verbatim>\<open>fetch\<close> does when nothing aborts it: after so many milliseconds it resolves
  with a response (status and headers are there, the body is still to be read) or rejects.
\<close>

datatype fetchOutcome = Responds nat response | Rejects nat string

datatype downloadError =
    AbortError
  | FetchError string
  | HttpFailure nat string
  | NoStream
  | StreamError string
  | RangeError

text \<open>The effects of one download on the outside, in the order they happen.\<close>

datatype downloadEffect =
    SetIsDownloading bool
  | SetProgress int
  | ToastLoading
  | ToastDismiss
  | ToastSuccess jsString
  | ToastError downloadError
  | FetchGet string
  | SetTimeout nat
  | ClearTimeout
  | Abort
  | Read
  | SaveFile jsString bytes string
  | NotifySuccess jsString
  | NotifyError downloadError

text \<open>Whether the caller passed \<open>onSuccess\<close> and \<open>onError\<close>.\<close>

record downloadOptions =
  notifiesSuccess :: bool
  notifiesError :: bool

text \<open>The abort deadline of the download, in milliseconds.\<close>

definition abortDeadline :: nat where
  "abortDeadline = 180000"

text \<open>
  The address fetched: an absolute address as it is, any other through the internal
  proxy prefix \<^verbatim>\<open>/api\<close>, after removing that prefix if the address already has it.
\<close>

definition finalUrl :: "string \<Rightarrow> string" where
  "finalUrl url =
     (if startsWith url ''http://'' \<or> startsWith url ''https://'' then url
      else
        let cleanPath = (if startsWith url ''/api/'' then substring url 4 else url)
        in ''/api'' @ (if startsWith cleanPath ''/'' then cleanPath else ''/'' @ cleanPath))"

text \<open>
  The \<^verbatim>\<open>while (true)\<close> loop over \<^verbatim>\<open>reader.read()\<close>. The state is the number of bytes
  received, the chunks so far, the effects so far and the time so far. Each chunk is
  appended and counted, and when the total is known a progress value is set. The loop
  ends at the end of the stream, or with the error of a read that rejects. Nothing in
  the loop looks at the clock or at the abort signal.
\<close>

fun readLoop ::
  "int option \<Rightarrow> bodyRead list \<Rightarrow> nat \<times> bytes list \<times> downloadEffect list \<times> nat
     \<Rightarrow> downloadError \<times> downloadEffect list \<times> nat + nat \<times> bytes list \<times> downloadEffect list \<times> nat" where
  "readLoop totalBytes [] (receivedLength, chunks, effs, t) =
     Inr (receivedLength, chunks, effs @ [Read], t)"
| "readLoop totalBytes (Chunk d v # rs) (receivedLength, chunks, effs, t) =
     readLoop totalBytes rs
       (receivedLength + length v,
        chunks @ [v],
        effs @ [Read] @
          (if totalKnown totalBytes then [SetProgress (percent (receivedLength + length v) (the totalBytes))]
           else []),
        t + d)"
| "readLoop totalBytes (ReadFails d msg # rs) (receivedLength, chunks, effs, t) =
     Inl (StreamError msg, effs @ [Read], t + d)"

text \<open>
  \<^verbatim>\<open>allChunks.set(chunk, position)\<close> on a typed array: the chunk overwrites the bytes from
  the position on, and a chunk that does not fit is a \<^verbatim>\<open>RangeError\<close>.
\<close>

definition setAt :: "bytes \<Rightarrow> bytes \<Rightarrow> nat \<Rightarrow> bytes option" where
  "setAt buffer chunk position =
     (if position + length chunk \<le> length buffer
      then Some (take position buffer @ chunk @ drop (position + length chunk) buffer)
      else None)"

fun copyChunks :: "bytes list \<Rightarrow> bytes \<Rightarrow> nat \<Rightarrow> bytes option" where
  "copyChunks [] allChunks position = Some allChunks"
| "copyChunks (chunk # rest) allChunks position =
     (case setAt allChunks chunk position of
        None \<Rightarrow> None
      | Some b \<Rightarrow> copyChunks rest b (position + length chunk))"

text \<open>\<^verbatim>\<open>new Uint8Array(receivedLength)\<close> filled from the chunks.\<close>

definition assemble :: "nat \<Rightarrow> bytes list \<Rightarrow> bytes option" where
  "assemble receivedLength chunks = copyChunks chunks (replicate receivedLength 0) 0"

text \<open>\<^verbatim>\<open>contentType || "application/octet-stream"\<close>\<close>

definition blobType :: "string option \<Rightarrow> string" where
  "blobType declaredType =
     (case declaredType of
        None \<Rightarrow> ''application/octet-stream''
      | Some ct \<Rightarrow> (if ct = [] then ''application/octet-stream'' else ct))"

text \<open>The result of a download: what it returned, its effects, and when it returned.\<close>

record downloadResult =
  returned :: bool
  dlEffects :: "downloadEffect list"
  finishedAt :: nat

text \<open>The \<^verbatim>\<open>catch\<close> block followed by the \<^verbatim>\<open>finally\<close> block.\<close>

definition failDownload ::
  "downloadOptions \<Rightarrow> downloadError \<Rightarrow> downloadEffect list \<Rightarrow> nat \<Rightarrow> downloadResult" where
  "failDownload opts err effs t =
     \<lparr>returned = False,
      dlEffects = effs @ [ToastDismiss, ToastError err]
                  @ (if notifiesError opts then [NotifyError err] else [])
                  @ [SetIsDownloading False, SetProgress 0],
      finishedAt = t\<rparr>"

text \<open>
  \<open>downloadFileWithProgress url fallbackFilename\<close>, given what the fetch does. The timeout
  that aborts is set before the fetch and cleared as soon as the fetch has resolved;
  when the fetch is still unsettled at the deadline the timeout fires, the controller
  aborts and the fetch rejects with an \<^verbatim>\<open>AbortError\<close>. (A fetch that rejects before the
  deadline leaves the timeout pending; it fires after the download has returned.)
\<close>

definition downloadFileWithProgress ::
  "downloadOptions \<Rightarrow> fetchOutcome \<Rightarrow> string \<Rightarrow> jsString \<Rightarrow> downloadResult" where
  "downloadFileWithProgress opts net url fallbackFilename =
    (let effs0 = [SetIsDownloading True, SetProgress 0, ToastLoading,
                  SetTimeout abortDeadline, FetchGet (finalUrl url)]
     in (case net of
          Rejects t msg \<Rightarrow>
            (if abortDeadline \<le> t
             then failDownload opts AbortError (effs0 @ [Abort]) abortDeadline
             else failDownload opts (FetchError msg) effs0 t)
        | Responds t r \<Rightarrow>
            (if abortDeadline \<le> t
             then failDownload opts AbortError (effs0 @ [Abort]) abortDeadline
             else if \<not> ok r
             then failDownload opts (HttpFailure (status r) (statusText r)) (effs0 @ [ClearTimeout]) t
             else
               (let totalBytes = declaredTotal (contentLength r);
                    filename = resolveFilename (contentDisposition r) fallbackFilename
                in (case body r of
                      None \<Rightarrow> failDownload opts NoStream (effs0 @ [ClearTimeout]) t
                    | Some reads \<Rightarrow>
                        (case readLoop totalBytes reads (0, [], effs0 @ [ClearTimeout], t) of
                           Inl (err, effs2, t2) \<Rightarrow> failDownload opts err effs2 t2
                         | Inr (receivedLength, chunks, effs2, t2) \<Rightarrow>
                             (case assemble receivedLength chunks of
                                None \<Rightarrow> failDownload opts RangeError effs2 t2
                              | Some allChunks \<Rightarrow>
                                  \<lparr>returned = True,
                                   dlEffects =
                                     effs2
                                     @ [SaveFile filename allChunks (blobType (contentType r)),
                                        ToastDismiss, ToastSuccess filename]
                                     @ (if notifiesSuccess opts then [NotifySuccess filename] else [])
                                     @ [SetIsDownloading False, SetProgress 0],
                                   finishedAt = t2\<rparr>)))))))"



subsection \<open>Sample responses\<close>

text \<open>
  The header \<^verbatim>\<open>attachment; filename*=UTF-8''r%C3%A9sum%C3%A9.pptx\<close>, and a header that
  carries a quoted plain name together with an extended name whose escape \<^verbatim>\<open>%E9\<close> opens
  a UTF-8 sequence that never continues.
\<close>

definition resumeHeader :: string where
  "resumeHeader = ''attachment; filename*=UTF-8'' @ [CHR 0x27, CHR 0x27] @ ''r%C3%A9sum%C3%A9.pptx''"

definition resumeName :: jsString where
  "resumeName = units ''r'' @ [233] @ units ''sum'' @ [233] @ units ''.pptx''"

definition brokenExtendedHeader :: string where
  "brokenExtendedHeader =
     ''attachment; filename='' @ [CHR 0x22] @ ''plain.pptx'' @ [CHR 0x22]
       @ ''; filename*=UTF-8'' @ [CHR 0x27, CHR 0x27] @ ''%E9''"

definition plainHeader :: string where
  "plainHeader = ''attachment; filename='' @ [CHR 0x22] @ ''plain.pptx'' @ [CHR 0x22]"

definition allOptions :: downloadOptions where
  "allOptions = \<lparr>notifiesSuccess = True, notifiesError = True\<rparr>"





text \<open>
  A response whose status line and headers arrive after 100 ms and whose only chunk
  arrives 200 seconds later.
\<close>

definition stalledResponse :: response where
  "stalledResponse =
     \<lparr>ok = True, status = 200, statusText = ''OK'', contentLength = Some ''3'',
      contentType = None, contentDisposition = None,
      body = Some [Chunk 200000 [1, 2, 3]]\<rparr>"

subsection \<open>What a body delivers\<close>



text \<open>The effects with which the read loop ends, whichever way it ends.\<close>

fun loopEffects ::
  "downloadError \<times> downloadEffect list \<times> nat + nat \<times> bytes list \<times> downloadEffect list \<times> nat
     \<Rightarrow> downloadEffect list" where
  "loopEffects (Inl (err, effs, t)) = effs"
| "loopEffects (Inr (n, chunks, effs, t)) = effs"

text \<open>The effects of a download up to the moment its fetch has resolved.\<close>

definition effectsAtResponse :: "string \<Rightarrow> downloadEffect list" where
  "effectsAtResponse url =
     [SetIsDownloading True, SetProgress 0, ToastLoading,
      SetTimeout abortDeadline, FetchGet (finalUrl url), ClearTimeout]"

section \<open>The task orchestrator (hook \<open>useIsWorking\<close>)\<close>

subsection \<open>Timers, callbacks and replies\<close>

text \<open>
  The hook sets three kinds of timers: the timeout of one second before the first status
  check, the interval of two seconds that repeats the check, and the safety timeout of
  five minutes. A pending timer has a handle and the time at which it is due next.
\<close>

datatype timerKind = GraceTimeout | PollingInterval | SafetyTimeout

record jsTimer =
  tHandle :: nat
  tKind :: timerKind
  tDue :: int

definition graceDelay :: int where
  "graceDelay = 1000"

definition pollingPeriod :: int where
  "pollingPeriod = 2000"

definition safetyDelay :: int where
  "safetyDelay = 5 * 60 * 1000"

text \<open>
  A callback of the caller either returns or throws. The options of the hook: the course
  whose status is polled, and \<open>onComplete\<close> and \<open>onError\<close>, each absent or present.
\<close>

datatype callbackResult = Returns | Throws string

record taskOptions =
  courseId :: nat
  onComplete :: "callbackResult option"
  onError :: "callbackResult option"

text \<open>
  The answer to a status check: a good response with the truth value of
  \<^verbatim>\<open>data.is_working\<close>, a response with a bad status, or a fetch or a JSON body that
  fails. The answer to the POST that starts a task: good, bad status with the text of
  the response, or a fetch that fails.
\<close>

datatype statusReply = StatusOk bool | StatusHttpError nat | StatusFails string

datatype startFailure = StartHttpError nat string | StartFails string

datatype startReply = StartOk | StartFailed startFailure

text \<open>What an observer outside the hook sees, in the order it happens.\<close>

datatype observed =
    PostRequest nat string
  | StatusRequest nat nat
  | OnCompleteCalled
  | OnErrorCalled startFailure
  | WarningToast
  | ErrorToast startFailure
  | ConsoleError string
  | StartErrorLogged startFailure
  | StartTaskReturned nat bool
  | StartTaskRejected nat string

text \<open>
  The state of one hook instance: the four React state cells, the three refs, and the
  part of the JavaScript runtime the hook has a hand in, namely its pending timers (with
  the next free handle; handles start at 1 and are truthy), the time, its requests in
  flight (each numbered when issued), and what has been observed so far. The cells
  \<open>isLoading\<close> and \<open>error\<close> of this hook are \<open>taskLoading\<close> and \<open>taskError\<close> here, the
  names being taken by the cells of the executor.
\<close>

record orchestrator =
  isWorking :: bool
  taskLoading :: bool
  taskMessage :: "string option"
  taskError :: "startFailure option"
  pollingIntervalRef :: "nat option"
  completionCallbackFiredRef :: bool
  isPollingRef :: bool
  timers :: "jsTimer list"
  nextTimer :: nat
  now :: int
  statusInFlight :: "nat list"
  startInFlight :: "nat list"
  nextRequest :: nat
  observedLog :: "observed list"

definition idle :: orchestrator where
  "idle = \<lparr>isWorking = False, taskLoading = False, taskMessage = None, taskError = None,
           pollingIntervalRef = None, completionCallbackFiredRef = False, isPollingRef = False,
           timers = [], nextTimer = 1, now = 0,
           statusInFlight = [], startInFlight = [], nextRequest = 1, observedLog = []\<rparr>"

subsection \<open>The functions of the hook\<close>

text \<open>\<^verbatim>\<open>clearInterval\<close> and \<^verbatim>\<open>clearTimeout\<close>: the timer with this handle is no longer pending.\<close>

definition clearTimer :: "nat \<Rightarrow> jsTimer list \<Rightarrow> jsTimer list" where
  "clearTimer h ts = filter (\<lambda>t. tHandle t \<noteq> h) ts"

text \<open>
  \<open>cleanupPolling\<close>, exported as \<open>stopPolling\<close>: clear the interval whose handle is in
  \<open>pollingIntervalRef\<close>, if there is one, empty the ref, and clear the polling flag.
\<close>

definition cleanupPolling :: "orchestrator \<Rightarrow> orchestrator" where
  "cleanupPolling s =
     (case pollingIntervalRef s of
        Some h \<Rightarrow> s\<lparr>timers := clearTimer h (timers s), pollingIntervalRef := None,
                     isPollingRef := False\<rparr>
      | None \<Rightarrow> s\<lparr>isPollingRef := False\<rparr>)"

text \<open>
  Calling \<open>onComplete\<close>: the call is observed, and it returns or throws. The second
  component of the result is the exception that leaves the call, if any.
\<close>

definition callOnComplete :: "callbackResult \<Rightarrow> orchestrator \<Rightarrow> orchestrator \<times> string option" where
  "callOnComplete cb s =
     (case cb of
        Returns \<Rightarrow> (s\<lparr>observedLog := observedLog s @ [OnCompleteCalled]\<rparr>, None)
      | Throws msg \<Rightarrow> (s\<lparr>observedLog := observedLog s @ [OnCompleteCalled]\<rparr>, Some msg))"

text \<open>
  \<open>executeCompletionCallback\<close>: when the guard is clear and \<open>onComplete\<close> is present, set
  the guard, then call \<open>onComplete\<close> inside \<^verbatim>\<open>try\<close>; the \<^verbatim>\<open>catch\<close> block logs what the
  call throws. The second component is the exception that leaves this function, if any.
\<close>

definition executeCompletionCallback ::
  "taskOptions \<Rightarrow> orchestrator \<Rightarrow> orchestrator \<times> string option" where
  "executeCompletionCallback p s =
     (case onComplete p of
        None \<Rightarrow> (s, None)
      | Some cb \<Rightarrow>
          if completionCallbackFiredRef s then (s, None)
          else
            (case callOnComplete cb (s\<lparr>completionCallbackFiredRef := True\<rparr>) of
               (s1, None) \<Rightarrow> (s1, None)
             | (s1, Some thrown) \<Rightarrow>
                 (s1\<lparr>observedLog := observedLog s1 @ [ConsoleError thrown]\<rparr>, None)))"

text \<open>
  \<open>checkTaskStatus\<close> up to its first \<^verbatim>\<open>await\<close>: the status request of the course goes
  out and is in flight.
\<close>

definition checkTaskStatus :: "taskOptions \<Rightarrow> orchestrator \<Rightarrow> orchestrator" where
  "checkTaskStatus p s =
     s\<lparr>statusInFlight := statusInFlight s @ [nextRequest s],
       nextRequest := nextRequest s + 1,
       observedLog := observedLog s @ [StatusRequest (nextRequest s) (courseId p)]\<rparr>"

text \<open>
  The rest of \<open>checkTaskStatus\<close>, when the answer is there. A good answer that says the
  task is no longer working ends the polling and runs the completion; any failure is
  caught and logged, and so is anything the completion would throw.
\<close>

definition statusArrives :: "taskOptions \<Rightarrow> nat \<Rightarrow> statusReply \<Rightarrow> orchestrator \<Rightarrow> orchestrator" where
  "statusArrives p rid reply s =
     (if rid \<notin> set (statusInFlight s) then s
      else
        let s0 = s\<lparr>statusInFlight := filter (\<lambda>r. r \<noteq> rid) (statusInFlight s)\<rparr>
        in (case reply of
              StatusHttpError code \<Rightarrow> s0\<lparr>observedLog := observedLog s0 @ [ConsoleError ''Error HTTP'']\<rparr>
            | StatusFails msg \<Rightarrow> s0\<lparr>observedLog := observedLog s0 @ [ConsoleError msg]\<rparr>
            | StatusOk stillWorking \<Rightarrow>
                if stillWorking then s0
                else
                  (case executeCompletionCallback p
                          (cleanupPolling (s0\<lparr>isWorking := False, taskLoading := False\<rparr>)) of
                     (s1, None) \<Rightarrow> s1
                   | (s1, Some thrown) \<Rightarrow>
                       s1\<lparr>observedLog := observedLog s1 @ [ConsoleError thrown]\<rparr>)))"

text \<open>
  \<open>startPolling\<close>: nothing when the polling flag is set; otherwise set the state and the
  flag, clear the guard, and set the timeout of one second. Its handle is not kept.
\<close>

definition startPolling :: "orchestrator \<Rightarrow> orchestrator" where
  "startPolling s =
     (if isPollingRef s then s
      else
        s\<lparr>isWorking := True, taskLoading := True, isPollingRef := True,
          completionCallbackFiredRef := False,
          timers := timers s @ [\<lparr>tHandle = nextTimer s, tKind = GraceTimeout,
                                  tDue = now s + graceDelay\<rparr>],
          nextTimer := nextTimer s + 1\<rparr>)"

text \<open>
  The callback of the first timeout: check the status at once, set the interval and keep
  its handle in \<open>pollingIntervalRef\<close>, and set the safety timeout, whose handle is not kept.
\<close>

definition graceElapsed :: "taskOptions \<Rightarrow> orchestrator \<Rightarrow> orchestrator" where
  "graceElapsed p s =
     (let s1 = checkTaskStatus p s
      in s1\<lparr>pollingIntervalRef := Some (nextTimer s1),
            timers := timers s1 @
              [\<lparr>tHandle = nextTimer s1, tKind = PollingInterval, tDue = now s1 + pollingPeriod\<rparr>,
               \<lparr>tHandle = nextTimer s1 + 1, tKind = SafetyTimeout, tDue = now s1 + safetyDelay\<rparr>],
            nextTimer := nextTimer s1 + 2\<rparr>)"

text \<open>
  The callback of the safety timeout: when the polling flag is set, end the polling, run
  the completion and warn; otherwise nothing.
\<close>

definition safetyElapsed :: "taskOptions \<Rightarrow> orchestrator \<Rightarrow> orchestrator" where
  "safetyElapsed p s =
     (if isPollingRef s then
        (case executeCompletionCallback p
                (cleanupPolling (s\<lparr>isWorking := False, taskLoading := False\<rparr>)) of
           (s1, None) \<Rightarrow> s1\<lparr>observedLog := observedLog s1 @ [WarningToast]\<rparr>
         | (s1, Some thrown) \<Rightarrow> s1)
      else s)"

text \<open>
  The runtime fires the pending timer \<open>t\<close>: the time is at least its due time, a timeout
  leaves the pending list, an interval stays with its next due time, and the callback
  runs.
\<close>

definition fireTimer :: "taskOptions \<Rightarrow> jsTimer \<Rightarrow> orchestrator \<Rightarrow> orchestrator" where
  "fireTimer p t s =
     (let s0 = s\<lparr>now := max (now s) (tDue t)\<rparr>
      in (case tKind t of
            GraceTimeout \<Rightarrow> graceElapsed p (s0\<lparr>timers := clearTimer (tHandle t) (timers s0)\<rparr>)
          | PollingInterval \<Rightarrow>
              checkTaskStatus p
                (s0\<lparr>timers := map (\<lambda>u. if tHandle u = tHandle t
                                           then u\<lparr>tDue := tDue u + pollingPeriod\<rparr> else u)
                                  (timers s0)\<rparr>)
          | SafetyTimeout \<Rightarrow> safetyElapsed p (s0\<lparr>timers := clearTimer (tHandle t) (timers s0)\<rparr>)))"

text \<open>\<^verbatim>\<open>url.startsWith("/api/") ? url : `/api${url.startsWith("/") ? url : `/${url}`}`\<close>\<close>

definition apiUrl :: "string \<Rightarrow> string" where
  "apiUrl url =
     (if startsWith url ''/api/'' then url
      else ''/api'' @ (if startsWith url ''/'' then url else ''/'' @ url))"

text \<open>
  \<open>startTask\<close> up to its \<^verbatim>\<open>await\<close>: clean up whatever polling there was, set the message and
  the state, clear the guard, and send the POST.
\<close>

definition startTask :: "string \<Rightarrow> string \<Rightarrow> orchestrator \<Rightarrow> orchestrator" where
  "startTask url message s =
     (let s1 = (cleanupPolling s)\<lparr>taskMessage := Some message, taskLoading := True,
                                   taskError := None, completionCallbackFiredRef := False\<rparr>
      in s1\<lparr>startInFlight := startInFlight s1 @ [nextRequest s1],
            nextRequest := nextRequest s1 + 1,
            observedLog := observedLog s1 @ [PostRequest (nextRequest s1) (apiUrl url)]\<rparr>)"

text \<open>
  The rest of \<open>startTask\<close>, when the POST is answered. A good answer starts the polling and
  the call returns true. Anything else is caught: the failure is logged, the state is
  cleared, the failure is stored and shown, \<open>onError\<close> is called when present, and the call
  returns false, unless \<open>onError\<close> throws, which leaves the \<^verbatim>\<open>catch\<close> block.
\<close>

definition startAnswered :: "taskOptions \<Rightarrow> nat \<Rightarrow> startReply \<Rightarrow> orchestrator \<Rightarrow> orchestrator" where
  "startAnswered p rid reply s =
     (if rid \<notin> set (startInFlight s) then s
      else
        let s0 = s\<lparr>startInFlight := filter (\<lambda>r. r \<noteq> rid) (startInFlight s)\<rparr>
        in (case reply of
              StartOk \<Rightarrow>
                (let s1 = startPolling s0
                 in s1\<lparr>observedLog := observedLog s1 @ [StartTaskReturned rid True]\<rparr>)
            | StartFailed f \<Rightarrow>
                (let s1 = s0\<lparr>taskLoading := False, isWorking := False, taskError := Some f,
                              observedLog := observedLog s0 @ [StartErrorLogged f, ErrorToast f]\<rparr>
                 in (case onError p of
                       None \<Rightarrow> s1\<lparr>observedLog := observedLog s1 @ [StartTaskReturned rid False]\<rparr>
                     | Some Returns \<Rightarrow>
                         s1\<lparr>observedLog := observedLog s1
                                @ [OnErrorCalled f, StartTaskReturned rid False]\<rparr>
                     | Some (Throws msg) \<Rightarrow>
                         s1\<lparr>observedLog := observedLog s1
                                @ [OnErrorCalled f, StartTaskRejected rid msg]\<rparr>))))"

text \<open>\<open>resetState\<close>.\<close>

definition resetState :: "orchestrator \<Rightarrow> orchestrator" where
  "resetState s =
     (cleanupPolling s)\<lparr>isWorking := False, taskLoading := False, taskError := None,
                        completionCallbackFiredRef := False\<rparr>"

subsection \<open>What can happen to a hook\<close>

text \<open>
  The caller calls one of the four functions, a request is answered, time passes, or the
  runtime fires the pending timer with a given handle. Firing a handle that is not
  pending and answering a request that is not in flight do nothing.
\<close>

datatype taskEvent =
    CallStartTask string string
  | StartReplies nat startReply
  | CallStartPolling
  | CallStopPolling
  | CallResetState
  | TimerFires nat
  | StatusReplies nat statusReply
  | TimePasses int

fun taskStep :: "taskOptions \<Rightarrow> taskEvent \<Rightarrow> orchestrator \<Rightarrow> orchestrator" where
  "taskStep p (CallStartTask url message) s = startTask url message s"
| "taskStep p (StartReplies rid reply) s = startAnswered p rid reply s"
| "taskStep p CallStartPolling s = startPolling s"
| "taskStep p CallStopPolling s = cleanupPolling s"
| "taskStep p CallResetState s = resetState s"
| "taskStep p (TimerFires h) s =
     (case filter (\<lambda>t. tHandle t = h) (timers s) of
        [] \<Rightarrow> s
      | t # ts \<Rightarrow> fireTimer p t s)"
| "taskStep p (StatusReplies rid reply) s = statusArrives p rid reply s"
| "taskStep p (TimePasses d) s = s\<lparr>now := now s + d\<rparr>"

fun taskRun :: "taskOptions \<Rightarrow> taskEvent list \<Rightarrow> orchestrator \<Rightarrow> orchestrator" where
  "taskRun p [] s = s"
| "taskRun p (e # es) s = taskRun p es (taskStep p e s)"

subsection \<open>Loops, requests, completions, cycles\<close>

text \<open>
  A polling loop is running, or about to, for every pending first timeout and every
  pending interval.
\<close>

definition pollingLoops :: "orchestrator \<Rightarrow> nat" where
  "pollingLoops s = length (filter (\<lambda>t. tKind t \<noteq> SafetyTimeout) (timers s))"

definition outstandingStatusRequests :: "orchestrator \<Rightarrow> nat" where
  "outstandingStatusRequests s = length (statusInFlight s)"

text \<open>The number of times \<open>onComplete\<close> has been called.\<close>

fun completions :: "observed list \<Rightarrow> nat" where
  "completions [] = 0"
| "completions (OnCompleteCalled # os) = Suc (completions os)"
| "completions (ob # os) = completions os"





subsection \<open>Sample runs\<close>

definition sampleOptions :: taskOptions where
  "sampleOptions = \<lparr>courseId = 7, onComplete = Some Returns, onError = Some Returns\<rparr>"

definition throwingOptions :: taskOptions where
  "throwingOptions = \<lparr>courseId = 7, onComplete = Some (Throws ''boom''), onError = Some Returns\<rparr>"

text \<open>
  A task is started at time 0 and its POST is answered at once; half a second later a
  second task is started and its POST is answered at once. The two timeouts of one second
  fire at 1000 and 1500.
\<close>

definition restartDuringGrace :: "taskEvent list" where
  "restartDuringGrace =
     [CallStartTask ''/courses/7/slides'' ''Generating slides'', StartReplies 1 StartOk,
      TimePasses 500,
      CallStartTask ''/courses/7/slides'' ''Generating slides'', StartReplies 2 StartOk,
      TimerFires 1, TimerFires 2]"



text \<open>Polling is started and stopped at once; the timeout of one second then fires.\<close>

definition stopDuringGrace :: "taskEvent list" where
  "stopDuringGrace = [CallStartPolling, CallStopPolling]"


text \<open>
  The calls of \<open>onComplete\<close> so far, plus one while the guard is clear: a bound on the calls
  there can have been by the time the guard is cleared again.
\<close>

definition completionBudget :: "orchestrator \<Rightarrow> nat" where
  "completionBudget s =
     completions (observedLog s) + (if completionCallbackFiredRef s then 0 else 1)"

section \<open>Properties of the request key\<close>

text \<open>
  C5, as stated: the key of \<open>/api/x\<close> equals the key of \<open>x\<close>. It does not: only the four
  characters \<open>/api\<close> are removed, so the key of \<open>/api/x\<close> is \<open>get:/x\<close>, and the key of \<open>x\<close>
  is \<open>get:x\<close>.
\<close>

theorem C5_key_api_x_differs_from_x:
  "requestKey Get ''/api/x'' \<noteq> requestKey Get ''x''"
  by (simp add: requestKey_def getDebounceKey_def cleanUrl_def startsWith_def substring_def)

text \<open>
  C5, amended: the executor strips the leading \<open>/api\<close> and keeps the slash that follows
  it, so for every method the key of \<open>/api/\<close>rest is the method, a colon and \<open>/\<close>rest; in
  particular the keys of \<open>/api/x\<close> and \<open>/x\<close> coincide for every method.
\<close>

theorem C5_key_strips_api_keeps_slash:
  "requestKey m (''/api/'' @ rest) = methodString m @ '':/'' @ rest
   \<and> requestKey m ''/api/x'' = requestKey m ''/x''"
  by (simp add: requestKey_def getDebounceKey_def cleanUrl_def startsWith_def substring_def)

section \<open>Retries of the executor\<close>

lemma netCalls_simps [simp]:
  "netCalls [] = 0"
  "netCalls (NetCall m u # es) = Suc (netCalls es)"
  "netCalls (Sleep d # es) = netCalls es"
  "netCalls (OnError x # es) = netCalls es"
  by (simp_all add: netCalls_def)

lemma netCalls_append [simp]: "netCalls (xs @ ys) = netCalls xs + netCalls ys"
  by (simp add: netCalls_def)

lemma executeRequest_success:
  assumes "admitted cfg m url retryCount s w"
    and "snd (net (netCalls (effects w))) = Response r"
  shows "fst (executeRequest cfg net m url retryCount (s, w)) = Some r"
    and "effects (snd (snd (executeRequest cfg net m url retryCount (s, w))))
           = effects w @ [NetCall m (cleanUrl url)]"
  using assms
  by (auto simp add: executeRequest.simps [of _ _ _ _ retryCount] Let_def requestKey_def
        admitted_def)

lemma executeRequest_retry:
  assumes "admitted cfg m url retryCount s w"
    and "snd (net (netCalls (effects w))) = Failed e"
    and "retryCount < maxRetries cfg"
  shows "\<exists>s' c'.
     executeRequest cfg net m url retryCount (s, w) =
       (case executeRequest cfg net m url (retryCount + 1)
          (s', \<lparr>clock = c',
                effects = effects w @ [NetCall m (cleanUrl url), Sleep (retryDelay cfg)]\<rparr>) of
          (res, s3, w3) \<Rightarrow> (res, s3\<lparr>isLoading := False\<rparr>, w3))"
  using assms
  apply (subst executeRequest.simps)
  apply (cases w)
  apply (auto simp add: Let_def requestKey_def admitted_def)
  done

lemma executeRequest_effects_extend:
  "\<exists>rest. effects (snd (snd (executeRequest cfg net m url retryCount (s, w)))) = effects w @ rest"
proof (induction cfg net m url retryCount "(s, w)" arbitrary: s w rule: executeRequest.induct)
  case (1 cfg net m url retryCount s w)
  show ?case
    apply (subst executeRequest.simps)
    using 1 [OF refl refl refl refl _ _ refl refl]
    apply (auto simp add: Let_def split: outcome.splits prod.splits)
    done
qed

text \<open>A call started at retry count \<open>k\<close> makes at most \<open>maxRetries - k + 1\<close> network calls.\<close>

lemma executeRequest_calls_bound:
  "netCalls (effects (snd (snd (executeRequest cfg net m url retryCount (s, w)))))
     \<le> netCalls (effects w) + (maxRetries cfg - retryCount) + 1"
proof (induction cfg net m url retryCount "(s, w)" arbitrary: s w rule: executeRequest.induct)
  case (1 cfg net m url retryCount s w)
  show ?case
    apply (subst executeRequest.simps)
    using 1 [OF refl refl refl refl _ _ refl refl]
    apply (auto simp add: Let_def split: outcome.splits prod.splits)
    done
qed

text \<open>A retry makes its network call whatever the throttle and pending maps hold.\<close>

lemma executeRequest_retry_runs:
  assumes "0 < retryCount"
  shows "\<exists>rest. effects (snd (snd (executeRequest cfg net m url retryCount (s, w))))
           = effects w @ NetCall m (cleanUrl url) # rest"
proof (cases "snd (net (netCalls (effects w)))")
  case (Response r)
  from assms have "admitted cfg m url retryCount s w" by (simp add: admitted_def)
  with Response executeRequest_success(2) [of cfg m url retryCount s w net r]
  show ?thesis by simp
next
  case (Failed e)
  show ?thesis
  proof (cases "retryCount < maxRetries cfg")
    case True
    from assms have adm: "admitted cfg m url retryCount s w" by (simp add: admitted_def)
    from adm Failed True executeRequest_retry [of cfg m url retryCount s w net e]
    obtain s' c' where
      eq: "executeRequest cfg net m url retryCount (s, w) =
       (case executeRequest cfg net m url (retryCount + 1)
          (s', \<lparr>clock = c',
                effects = effects w @ [NetCall m (cleanUrl url), Sleep (retryDelay cfg)]\<rparr>) of
          (res, s3, w3) \<Rightarrow> (res, s3\<lparr>isLoading := False\<rparr>, w3))" by blast
    obtain rest where
      "effects (snd (snd (executeRequest cfg net m url (retryCount + 1)
          (s', \<lparr>clock = c',
                effects = effects w @ [NetCall m (cleanUrl url), Sleep (retryDelay cfg)]\<rparr>))))
        = (effects w @ [NetCall m (cleanUrl url), Sleep (retryDelay cfg)]) @ rest"
      using executeRequest_effects_extend
        [of cfg net m url "retryCount + 1" s'
           "\<lparr>clock = c',
                effects = effects w @ [NetCall m (cleanUrl url), Sleep (retryDelay cfg)]\<rparr>"]
      by auto
    with eq show ?thesis by (auto split: prod.splits)
  next
    case False
    with assms Failed show ?thesis
      by (subst executeRequest.simps) (simp add: Let_def)
  qed
qed

text \<open>
  Two failures and then a success, with three retries allowed: the answer of the third
  call is returned after exactly three network calls, with the configured wait before
  each retry.
\<close>

lemma executeRequest_fail_fail_succeed:
  assumes adm: "admitted cfg m url 0 s w"
    and mr: "2 \<le> maxRetries cfg"
    and n0: "snd (net (netCalls (effects w))) = Failed e0"
    and n1: "snd (net (netCalls (effects w) + 1)) = Failed e1"
    and n2: "snd (net (netCalls (effects w) + 2)) = Response r"
  shows "fst (executeRequest cfg net m url 0 (s, w)) = Some r
       \<and> effects (snd (snd (executeRequest cfg net m url 0 (s, w)))) =
           effects w @ [NetCall m (cleanUrl url), Sleep (retryDelay cfg),
                        NetCall m (cleanUrl url), Sleep (retryDelay cfg),
                        NetCall m (cleanUrl url)]"
proof -
  let ?c = "NetCall m (cleanUrl url)" and ?z = "Sleep (retryDelay cfg)"
  from mr have lt0: "0 < maxRetries cfg" and lt1: "Suc 0 < maxRetries cfg" by simp_all
  from adm n0 lt0 executeRequest_retry [of cfg m url 0 s w net e0] obtain s1 c1 where
    e0: "executeRequest cfg net m url 0 (s, w) =
       (case executeRequest cfg net m url (Suc 0) (s1, \<lparr>clock = c1, effects = effects w @ [?c, ?z]\<rparr>) of
          (res, s3, w3) \<Rightarrow> (res, s3\<lparr>isLoading := False\<rparr>, w3))" by auto
  let ?w1 = "\<lparr>clock = c1, effects = effects w @ [?c, ?z]\<rparr>"
  have adm1: "admitted cfg m url (Suc 0) s1 ?w1" by (simp add: admitted_def)
  have n1': "snd (net (netCalls (effects ?w1))) = Failed e1" using n1 by simp
  from adm1 n1' lt1 executeRequest_retry [of cfg m url "Suc 0" s1 ?w1 net e1] obtain s2 c2 where
    e1: "executeRequest cfg net m url (Suc 0) (s1, ?w1) =
       (case executeRequest cfg net m url (Suc (Suc 0))
               (s2, \<lparr>clock = c2, effects = effects w @ [?c, ?z, ?c, ?z]\<rparr>) of
          (res, s3, w3) \<Rightarrow> (res, s3\<lparr>isLoading := False\<rparr>, w3))" by auto
  let ?w2 = "\<lparr>clock = c2, effects = effects w @ [?c, ?z, ?c, ?z]\<rparr>"
  have adm2: "admitted cfg m url (Suc (Suc 0)) s2 ?w2" by (simp add: admitted_def)
  have n2': "snd (net (netCalls (effects ?w2))) = Response r" using n2 by simp
  from adm2 n2' executeRequest_success [of cfg m url "Suc (Suc 0)" s2 ?w2 net r] have
    r2: "fst (executeRequest cfg net m url (Suc (Suc 0)) (s2, ?w2)) = Some r"
    and f2: "effects (snd (snd (executeRequest cfg net m url (Suc (Suc 0)) (s2, ?w2))))
              = effects w @ [?c, ?z, ?c, ?z, ?c]" by simp_all
  from e0 e1 r2 f2 show ?thesis by (auto split: prod.splits)
qed

text \<open>
  C4: with \<open>maxRetries = 3\<close> and \<open>retryDelay = 1000\<close>, a call that is let through, fails on
  attempts 1 and 2 and succeeds on attempt 3 returns that response after exactly three
  network calls with a wait of 1000 ms before each retry; a fresh call never makes more
  than \<open>maxRetries + 1\<close> network calls; and a retry (retry count above 0) makes its network
  call whatever the throttle and pending maps hold.
\<close>

theorem C4_retry_policy:
  fixes net :: "nat \<Rightarrow> int \<times> 'a outcome"
  shows "(maxRetries cfg = 3 \<and> retryDelay cfg = 1000 \<and> admitted cfg m url 0 s w
          \<and> snd (net (netCalls (effects w))) = Failed e0
          \<and> snd (net (netCalls (effects w) + 1)) = Failed e1
          \<and> snd (net (netCalls (effects w) + 2)) = Response r
          \<longrightarrow> fst (executeRequest cfg net m url 0 (s, w)) = Some r
              \<and> effects (snd (snd (executeRequest cfg net m url 0 (s, w)))) =
                  effects w @ [NetCall m (cleanUrl url), Sleep 1000,
                               NetCall m (cleanUrl url), Sleep 1000,
                               NetCall m (cleanUrl url)])
       \<and> netCalls (effects (snd (snd (executeRequest cfg net m url 0 (s, w)))))
            \<le> netCalls (effects w) + maxRetries cfg + 1
       \<and> (0 < k \<longrightarrow>
            (\<exists>rest. effects (snd (snd (executeRequest cfg net m url k (s, w))))
                      = effects w @ NetCall m (cleanUrl url) # rest))"
proof (intro conjI impI)
  assume h: "maxRetries cfg = 3 \<and> retryDelay cfg = 1000 \<and> admitted cfg m url 0 s w
          \<and> snd (net (netCalls (effects w))) = Failed e0
          \<and> snd (net (netCalls (effects w) + 1)) = Failed e1
          \<and> snd (net (netCalls (effects w) + 2)) = Response r"
  then have mr: "2 \<le> maxRetries cfg" by simp
  from h executeRequest_fail_fail_succeed [of cfg m url s w net e0 e1 r, OF _ mr]
  show "fst (executeRequest cfg net m url 0 (s, w)) = Some r" by simp
  from h executeRequest_fail_fail_succeed [of cfg m url s w net e0 e1 r, OF _ mr]
  show "effects (snd (snd (executeRequest cfg net m url 0 (s, w)))) =
                  effects w @ [NetCall m (cleanUrl url), Sleep 1000,
                               NetCall m (cleanUrl url), Sleep 1000,
                               NetCall m (cleanUrl url)]" by simp
next
  from executeRequest_calls_bound [of cfg net m url 0 s w]
  show "netCalls (effects (snd (snd (executeRequest cfg net m url 0 (s, w)))))
            \<le> netCalls (effects w) + maxRetries cfg + 1" by simp
next
  assume "0 < k"
  then show "\<exists>rest. effects (snd (snd (executeRequest cfg net m url k (s, w))))
                      = effects w @ NetCall m (cleanUrl url) # rest"
    by (rule executeRequest_retry_runs)
qed

theorem C4_retry_policy_witness:
  "maxRetries defaultConfig = 3 \<and> retryDelay defaultConfig = 1000
   \<and> admitted defaultConfig Get ''/api/x'' 0 freshExec sampleWorld
   \<and> snd (failTwice (netCalls (effects sampleWorld))) = Failed (AxiosError ''Network Error'')
   \<and> snd (failTwice (netCalls (effects sampleWorld) + 1)) = Failed (AxiosError ''Network Error'')
   \<and> snd (failTwice (netCalls (effects sampleWorld) + 2)) = Response ''ok''
   \<and> fst (executeRequest defaultConfig failTwice Get ''/api/x'' 0 (freshExec, sampleWorld)) = Some ''ok''
   \<and> effects (snd (snd (executeRequest defaultConfig failTwice Get ''/api/x'' 0 (freshExec, sampleWorld))))
        = [NetCall Get ''/x'', Sleep 1000, NetCall Get ''/x'', Sleep 1000, NetCall Get ''/x'']
   \<and> \<not> admitted defaultConfig Get ''/api/x'' 0 busyExec sampleWorld
   \<and> (0::nat) < 1
   \<and> (\<exists>rest. effects (snd (snd (executeRequest defaultConfig failTwice Get ''/api/x'' 1
                                      (busyExec, sampleWorld))))
               = NetCall Get ''/x'' # rest)"
proof -
  have hyp: "maxRetries defaultConfig = 3 \<and> retryDelay defaultConfig = 1000
   \<and> admitted defaultConfig Get ''/api/x'' 0 freshExec sampleWorld
   \<and> snd (failTwice (netCalls (effects sampleWorld))) = Failed (AxiosError ''Network Error'')
   \<and> snd (failTwice (netCalls (effects sampleWorld) + 1)) = Failed (AxiosError ''Network Error'')
   \<and> snd (failTwice (netCalls (effects sampleWorld) + 2)) = Response ''ok''"
    by (simp add: defaultConfig_def admitted_def freshExec_def sampleWorld_def failTwice_def)
  have busy: "\<not> admitted defaultConfig Get ''/api/x'' 0 busyExec sampleWorld"
    by (simp add: defaultConfig_def admitted_def busyExec_def sampleWorld_def requestKey_def
          getDebounceKey_def cleanUrl_def startsWith_def substring_def)
  have cu: "cleanUrl ''/api/x'' = ''/x''"
    by (simp add: cleanUrl_def startsWith_def substring_def)
  have w0: "effects sampleWorld = []" by (simp add: sampleWorld_def)
  note a = C4_retry_policy [where cfg = defaultConfig and m = Get and url = "''/api/x''"
      and s = freshExec and w = sampleWorld and net = failTwice
      and ?e0.0 = "AxiosError ''Network Error''" and ?e1.0 = "AxiosError ''Network Error''"
      and r = "''ok''" and k = 1]
  note b = C4_retry_policy [where cfg = defaultConfig and m = Get and url = "''/api/x''"
      and s = busyExec and w = sampleWorld and net = failTwice and k = 1]
  from hyp a have 1: "fst (executeRequest defaultConfig failTwice Get ''/api/x'' 0 (freshExec, sampleWorld)) = Some ''ok''
   \<and> effects (snd (snd (executeRequest defaultConfig failTwice Get ''/api/x'' 0 (freshExec, sampleWorld))))
        = [NetCall Get ''/x'', Sleep 1000, NetCall Get ''/x'', Sleep 1000, NetCall Get ''/x'']"
    by (simp add: cu w0)
  from b have 2: "\<exists>rest. effects (snd (snd (executeRequest defaultConfig failTwice Get ''/api/x'' 1
                                      (busyExec, sampleWorld))))
               = NetCall Get ''/x'' # rest"
    by (simp add: cu w0)
  from hyp busy 1 2 show ?thesis by simp
qed

section \<open>Promises of superseded debounced calls\<close>

lemma starved_debounce:
  assumes "starved p (fst hw)"
  shows "starved p (fst (snd (debounce cfg m url hw)))"
  using assms
  by (auto simp add: starved_def debounce_def Let_def clearTimeout_def split: option.splits)

lemma starved_runTimeout:
  assumes "starved p (fst hw)" and "t \<in> set (timeouts (fst hw))"
  shows "starved p (fst (runTimeout cfg net t hw))"
  using assms
  by (auto simp add: starved_def runTimeout_def Let_def clearTimeout_def split: prod.splits)

lemma starved_step:
  assumes "starved p (fst hw)"
  shows "starved p (fst (debounceStep cfg net e hw))"
proof (cases e)
  case (Debounce m url)
  with assms show ?thesis by (simp add: starved_debounce)
next
  case (Elapse d)
  with assms show ?thesis by simp
next
  case (Fire n)
  show ?thesis
  proof (cases "filter (\<lambda>t. dHandle t = n) (timeouts (fst hw))")
    case Nil
    with Fire assms show ?thesis by simp
  next
    case (Cons t ts)
    then have "t \<in> set (filter (\<lambda>t. dHandle t = n) (timeouts (fst hw)))" by simp
    then have "t \<in> set (timeouts (fst hw))" by simp
    with assms have "starved p (fst (runTimeout cfg net t hw))" by (rule starved_runTimeout)
    with Fire Cons show ?thesis by simp
  qed
qed

lemma starved_run:
  assumes "starved p (fst hw)"
  shows "starved p (fst (debounceRun cfg net es hw))"
  using assms
proof (induction es arbitrary: hw)
  case Nil
  then show ?case by simp
next
  case (Cons e es)
  from Cons.prems have "starved p (fst (debounceStep cfg net e hw))" by (rule starved_step)
  then show ?case using Cons.IH by simp
qed

lemma twoRapidCalls_state:
  "timeouts (fst (debounceRun defaultConfig alwaysOk twoRapidCalls (freshHook, sampleWorld)))
     = [\<lparr>dHandle = 2, dDue = 6500, dMethod = Get, dUrl = ''/x'', dPromise = 1\<rparr>]"
  "exec (fst (debounceRun defaultConfig alwaysOk twoRapidCalls (freshHook, sampleWorld))) = freshExec"
  "resolved (fst (debounceRun defaultConfig alwaysOk twoRapidCalls (freshHook, sampleWorld))) = Map.empty"
  "nextPromise (fst (debounceRun defaultConfig alwaysOk twoRapidCalls (freshHook, sampleWorld))) = 2"
  "snd (debounceRun defaultConfig alwaysOk twoRapidCalls (freshHook, sampleWorld))
     = \<lparr>clock = 5500, effects = []\<rparr>"
  by (simp_all add: twoRapidCalls_def freshHook_def sampleWorld_def debounce_def Let_def
        defaultConfig_def getDebounceKey_def cleanUrl_def startsWith_def substring_def
        clearTimeout_def)

text \<open>
  C6 at its failing input. After two debounced GETs of \<open>/x\<close> 500 ms apart, both callers
  hold a promise (numbers 0 and 1). The one pending timeout belongs to the second call.
  When it fires there is exactly one network call and promise 1 is resolved with its
  answer, but promise 0 is not resolved then, nor after any further events on any network.
\<close>

theorem C6_superseded_promise_never_resolved:
  "effects (snd (debounceRun defaultConfig alwaysOk (twoRapidCalls @ [Fire 2]) (freshHook, sampleWorld)))
      = [NetCall Get ''/x'']
   \<and> resolved (fst (debounceRun defaultConfig alwaysOk (twoRapidCalls @ [Fire 2])
                       (freshHook, sampleWorld))) 1 = Some (Some ''ok'')
   \<and> resolved (fst (debounceRun defaultConfig alwaysOk (twoRapidCalls @ [Fire 2])
                       (freshHook, sampleWorld))) 0 = None
   \<and> (\<forall>net es. resolved (fst (debounceRun defaultConfig net es
              (debounceRun defaultConfig alwaysOk twoRapidCalls (freshHook, sampleWorld)))) 0 = None)"
proof -
  have run_app: "\<And>cfg (net :: nat \<Rightarrow> int \<times> string outcome) xs ys hw.
      debounceRun cfg net (xs @ ys) hw = debounceRun cfg net ys (debounceRun cfg net xs hw)"
  proof -
    fix cfg and net :: "nat \<Rightarrow> int \<times> string outcome" and xs ys hw
    show "debounceRun cfg net (xs @ ys) hw = debounceRun cfg net ys (debounceRun cfg net xs hw)"
      by (induction xs arbitrary: hw) simp_all
  qed
  have fired: "debounceRun defaultConfig alwaysOk (twoRapidCalls @ [Fire 2]) (freshHook, sampleWorld)
      = runTimeout defaultConfig alwaysOk
          \<lparr>dHandle = 2, dDue = 6500, dMethod = Get, dUrl = ''/x'', dPromise = 1\<rparr>
          (debounceRun defaultConfig alwaysOk twoRapidCalls (freshHook, sampleWorld))"
    by (simp add: run_app twoRapidCalls_state)
  have adm: "admitted defaultConfig Get ''/x'' 0 freshExec \<lparr>clock = 6500, effects = []\<rparr>"
    by (simp add: admitted_def defaultConfig_def freshExec_def)
  have ok: "snd (alwaysOk (netCalls (effects \<lparr>clock = 6500, effects = []\<rparr>))) = Response ''ok''"
    by (simp add: alwaysOk_def)
  note ex = executeRequest_success [of defaultConfig Get "''/x''" 0 freshExec
      "\<lparr>clock = 6500, effects = []\<rparr>" alwaysOk "''ok''", OF adm ok]
  have cu: "cleanUrl ''/x'' = ''/x''"
    by (simp add: cleanUrl_def startsWith_def)
  have 1: "effects (snd (debounceRun defaultConfig alwaysOk (twoRapidCalls @ [Fire 2])
             (freshHook, sampleWorld))) = [NetCall Get ''/x'']"
    using ex by (simp add: fired twoRapidCalls_state runTimeout_def Let_def cu case_prod_beta)
  have 2: "resolved (fst (debounceRun defaultConfig alwaysOk (twoRapidCalls @ [Fire 2])
                       (freshHook, sampleWorld))) 1 = Some (Some ''ok'')"
    using ex by (simp add: fired twoRapidCalls_state runTimeout_def Let_def case_prod_beta)
  have 3: "resolved (fst (debounceRun defaultConfig alwaysOk (twoRapidCalls @ [Fire 2])
                       (freshHook, sampleWorld))) 0 = None"
    using ex by (simp add: fired twoRapidCalls_state runTimeout_def Let_def case_prod_beta)
  have st: "starved 0 (fst (debounceRun defaultConfig alwaysOk twoRapidCalls (freshHook, sampleWorld)))"
    by (simp add: twoRapidCalls_state starved_def)
  have 4: "\<forall>net es. resolved (fst (debounceRun defaultConfig net es
              (debounceRun defaultConfig alwaysOk twoRapidCalls (freshHook, sampleWorld)))) 0 = None"
  proof (intro allI)
    fix net :: "nat \<Rightarrow> int \<times> string outcome" and es
    from st have "starved 0 (fst (debounceRun defaultConfig net es
              (debounceRun defaultConfig alwaysOk twoRapidCalls (freshHook, sampleWorld))))"
      by (rule starved_run)
    then show "resolved (fst (debounceRun defaultConfig net es
              (debounceRun defaultConfig alwaysOk twoRapidCalls (freshHook, sampleWorld)))) 0 = None"
      by (simp add: starved_def)
  qed
  from 1 2 3 4 show ?thesis by blast
qed

section \<open>The file name of a download\<close>

lemma extendedPrefix_chars:
  "extendedPrefix = [CHR ''f'', CHR ''i'', CHR ''l'', CHR ''e'', CHR ''n'', CHR ''a'', CHR ''m'',
     CHR ''e'', CHR ''*'', CHR ''='', CHR ''U'', CHR ''T'', CHR ''F'', CHR ''-'', CHR ''8'',
     CHR 0x27, CHR 0x27]"
  by (simp add: extendedPrefix_def)

lemma basicPrefix_chars:
  "basicPrefix = [CHR ''f'', CHR ''i'', CHR ''l'', CHR ''e'', CHR ''n'', CHR ''a'', CHR ''m'',
     CHR ''e'', CHR ''='', CHR 0x22]"
  by (simp add: basicPrefix_def)

lemma lowerAscii_is_f:
  assumes "lowerAscii c = CHR ''f''"
  shows "c = CHR ''f'' \<or> c = CHR ''F''"
proof (cases "65 \<le> (of_char c :: nat) \<and> (of_char c :: nat) \<le> 90")
  case False
  with assms show ?thesis by (simp add: lowerAscii_def Let_def)
next
  case True
  with assms have "char_of ((of_char c :: nat) + 32) = CHR ''f''"
    by (simp add: lowerAscii_def Let_def)
  then have "(of_char (char_of ((of_char c :: nat) + 32)) :: nat) = of_char CHR ''f''"
    by simp
  with True have n: "(of_char c :: nat) = 70" by (simp add: of_char_of)
  have "c = char_of (of_char c :: nat)" by simp
  also have "\<dots> = char_of (70 :: nat)" by (simp only: n)
  also have "\<dots> = CHR ''F''" by (simp add: char_of_def bit_Suc_0_iff)
  finally show ?thesis by simp
qed

text \<open>A position whose first letter is not an \<open>f\<close> is skipped by both patterns.\<close>

lemma matchExtended_skip:
  assumes "c \<noteq> CHR ''f''" and "c \<noteq> CHR ''F''"
  shows "matchExtended (c # cs) = matchExtended cs"
proof -
  from assms have "lowerAscii c \<noteq> CHR ''f''" using lowerAscii_is_f by blast
  then have "\<not> startsWithIgnoreCase (c # cs) extendedPrefix"
    by (simp add: startsWithIgnoreCase_def extendedPrefix_chars lowerAscii_def [of "CHR ''f''"])
  then show ?thesis by (simp add: matchExtended.simps)
qed

lemma matchBasic_skip:
  assumes "c \<noteq> CHR ''f''" and "c \<noteq> CHR ''F''"
  shows "matchBasic (c # cs) = matchBasic cs"
proof -
  from assms have "lowerAscii c \<noteq> CHR ''f''" using lowerAscii_is_f by blast
  then have "\<not> startsWithIgnoreCase (c # cs) basicPrefix"
    by (simp add: startsWithIgnoreCase_def basicPrefix_chars lowerAscii_def [of "CHR ''f''"])
  then show ?thesis by (simp add: matchBasic.simps)
qed

lemmas match_eval =
  matchExtended_skip matchBasic_skip matchExtended.simps matchBasic.simps
  extendedPrefix_chars basicPrefix_chars startsWithIgnoreCase_def lowerAscii_def
  extendedChar_def notQuote_def isSpace_def

lemmas decode_eval =
  decodeURIComponent.simps parseHexOctet_def hexValue_def leadingOnes_def isContinuation_def
  utf16Encode_def Let_def numeral_2_eq_2 numeral_3_eq_3

lemma matchExtended_resume: "matchExtended resumeHeader = Some ''r%C3%A9sum%C3%A9.pptx''"
  by (simp add: resumeHeader_def match_eval)

lemma decode_resume: "decodeURIComponent ''r%C3%A9sum%C3%A9.pptx'' = Some resumeName"
  by (simp add: resumeName_def units_def decode_eval)

lemma resolve_resume: "resolveFilename (Some resumeHeader) fb = resumeName"
proof -
  have "resumeHeader \<noteq> []" by (simp add: resumeHeader_def)
  then show ?thesis
    by (simp add: resolveFilename_def matchExtended_resume decode_resume)
qed

lemma matchExtended_broken: "matchExtended brokenExtendedHeader = Some ''%E9''"
  by (simp add: brokenExtendedHeader_def match_eval)

lemma matchBasic_broken: "matchBasic brokenExtendedHeader = Some ''plain.pptx''"
  by (simp add: brokenExtendedHeader_def match_eval)

lemma decode_broken: "decodeURIComponent ''%E9'' = None"
  by (simp add: decode_eval)

lemma matchExtended_plain: "matchExtended plainHeader = None"
  by (simp add: plainHeader_def match_eval)

lemma matchBasic_plain: "matchBasic plainHeader = Some ''plain.pptx''"
  by (simp add: plainHeader_def match_eval)

lemma matchExtended_attachment: "matchExtended ''attachment'' = None"
  by (simp add: match_eval)

lemma matchBasic_attachment: "matchBasic ''attachment'' = None"
  by (simp add: match_eval)

text \<open>
  C8, as stated: the extended name first, failing that the quoted plain name, failing
  that the fallback. At a header that carries the quoted plain name \<^verbatim>\<open>plain.pptx\<close> and an
  extended name that cannot be percent-decoded, the first source fails and the second is
  there, but the file name is the fallback.
\<close>

theorem C8_undecodable_extended_name_hides_plain_name:
  "matchExtended brokenExtendedHeader = Some ''%E9''
   \<and> decodeURIComponent ''%E9'' = None
   \<and> matchBasic brokenExtendedHeader = Some ''plain.pptx''
   \<and> resolveFilename (Some brokenExtendedHeader) (units ''slides.pptx'') = units ''slides.pptx''
   \<and> units ''slides.pptx'' \<noteq> units ''plain.pptx''"
proof -
  have "brokenExtendedHeader \<noteq> []" by (simp add: brokenExtendedHeader_def)
  then have "resolveFilename (Some brokenExtendedHeader) (units ''slides.pptx'') = units ''slides.pptx''"
    by (simp add: resolveFilename_def matchExtended_broken decode_broken)
  moreover have "units ''slides.pptx'' \<noteq> units ''plain.pptx''"
    by (simp add: units_def)
  ultimately show ?thesis
    by (simp add: matchExtended_broken matchBasic_broken decode_broken)
qed

text \<open>Whether a download succeeds, read off the definition branch by branch.\<close>

lemma returned_download:
  "returned (downloadFileWithProgress opts (Responds t r) url fb) =
     (t < abortDeadline \<and> ok r \<and>
      (case body r of
         None \<Rightarrow> False
       | Some reads \<Rightarrow>
           (case readLoop (declaredTotal (contentLength r)) reads
                   (0, [],
                    [SetIsDownloading True, SetProgress 0, ToastLoading,
                     SetTimeout abortDeadline, FetchGet (finalUrl url), ClearTimeout], t) of
              Inl x \<Rightarrow> False
            | Inr y \<Rightarrow> assemble (fst y) (fst (snd y)) \<noteq> None)))"
proof (cases "abortDeadline \<le> t")
  case True
  then show ?thesis by (simp add: downloadFileWithProgress_def failDownload_def)
next
  case late: False
  show ?thesis
  proof (cases "ok r")
    case False
    with late show ?thesis by (simp add: downloadFileWithProgress_def failDownload_def)
  next
    case okr: True
    show ?thesis
    proof (cases "body r")
      case None
      with late okr show ?thesis
        by (simp add: downloadFileWithProgress_def failDownload_def Let_def)
    next
      case (Some reads)
      show ?thesis
      proof (cases "readLoop (declaredTotal (contentLength r)) reads
                   (0, [],
                    [SetIsDownloading True, SetProgress 0, ToastLoading,
                     SetTimeout abortDeadline, FetchGet (finalUrl url), ClearTimeout], t)")
        case (Inl x)
        obtain err effs2 t2 where x: "x = (err, effs2, t2)" by (cases x) auto
        from late okr Some Inl x show ?thesis
          by (simp add: downloadFileWithProgress_def failDownload_def Let_def)
      next
        case (Inr y)
        obtain n chunks effs2 t2 where y: "y = (n, chunks, effs2, t2)" by (cases y) auto
        show ?thesis
        proof (cases "assemble n chunks")
          case None
          with late okr Some Inr y show ?thesis
            by (simp add: downloadFileWithProgress_def failDownload_def Let_def)
        next
          case (Some allChunks)
          with late okr \<open>body r = Some reads\<close> Inr y show ?thesis
            by (simp add: downloadFileWithProgress_def Let_def)
        qed
      qed
    qed
  qed
qed

lemma returned_ignores_disposition:
  "returned (downloadFileWithProgress opts (Responds t (r\<lparr>contentDisposition := d\<rparr>)) url fb)
     = returned (downloadFileWithProgress opts (Responds t (r\<lparr>contentDisposition := None\<rparr>)) url fb)"
  by (simp add: returned_download cong: option.case_cong)

text \<open>
  C8, amended: the file name is (1) the percent-decoded extended \<^verbatim>\<open>filename*\<close> parameter
  when the header has one and it decodes; (2) the quoted plain \<^verbatim>\<open>filename\<close> parameter when
  the header has no extended parameter; (3) the fallback, verbatim, when the header is
  absent, when it has neither parameter, and when its extended parameter cannot be
  decoded. The sample header resolves to \<open>r\<close>, U+00E9, \<open>sum\<close>, U+00E9, \<open>.pptx\<close>, and whether
  the download succeeds does not depend on the header.
\<close>

theorem C8_filename_priority:
  "resolveFilename None fb = fb
   \<and> (matchExtended h = Some e \<and> decodeURIComponent e = Some n
        \<longrightarrow> resolveFilename (Some h) fb = n)
   \<and> (matchExtended h = None \<and> matchBasic h = Some b
        \<longrightarrow> resolveFilename (Some h) fb = units b)
   \<and> (matchExtended h = None \<and> matchBasic h = None
        \<longrightarrow> resolveFilename (Some h) fb = fb)
   \<and> (matchExtended h = Some e \<and> decodeURIComponent e = None
        \<longrightarrow> resolveFilename (Some h) fb = fb)
   \<and> resolveFilename (Some resumeHeader) fb = resumeName
   \<and> returned (downloadFileWithProgress opts (Responds t (r\<lparr>contentDisposition := Some h\<rparr>)) url fb)
       = returned (downloadFileWithProgress opts (Responds t (r\<lparr>contentDisposition := None\<rparr>)) url fb)"
proof -
  have 1: "resolveFilename None fb = fb" by (simp add: resolveFilename_def)
  have 2: "matchExtended h = Some e \<and> decodeURIComponent e = Some n
        \<longrightarrow> resolveFilename (Some h) fb = n"
    by (cases h) (auto simp add: resolveFilename_def matchExtended.simps)
  have 3: "matchExtended h = None \<and> matchBasic h = Some b
        \<longrightarrow> resolveFilename (Some h) fb = units b"
    by (cases h) (auto simp add: resolveFilename_def matchBasic.simps)
  have 4: "matchExtended h = None \<and> matchBasic h = None
        \<longrightarrow> resolveFilename (Some h) fb = fb"
    by (simp add: resolveFilename_def)
  have 5: "matchExtended h = Some e \<and> decodeURIComponent e = None
        \<longrightarrow> resolveFilename (Some h) fb = fb"
    by (simp add: resolveFilename_def)
  note 6 = resolve_resume [of fb]
  note 7 = returned_ignores_disposition [where opts = opts and t = t and r = r and d = "Some h"
      and url = url and fb = fb]
  from 1 2 3 4 5 6 7 show ?thesis by blast
qed

theorem C8_filename_priority_witness:
  "matchExtended resumeHeader = Some ''r%C3%A9sum%C3%A9.pptx''
   \<and> decodeURIComponent ''r%C3%A9sum%C3%A9.pptx'' = Some resumeName
   \<and> resolveFilename (Some resumeHeader) (units ''slides.pptx'') = resumeName
   \<and> matchExtended plainHeader = None \<and> matchBasic plainHeader = Some ''plain.pptx''
   \<and> resolveFilename (Some plainHeader) (units ''slides.pptx'') = units ''plain.pptx''
   \<and> matchExtended ''attachment'' = None \<and> matchBasic ''attachment'' = None
   \<and> resolveFilename (Some ''attachment'') (units ''slides.pptx'') = units ''slides.pptx''
   \<and> matchExtended brokenExtendedHeader = Some ''%E9'' \<and> decodeURIComponent ''%E9'' = None
   \<and> resolveFilename (Some brokenExtendedHeader) (units ''slides.pptx'') = units ''slides.pptx''"
proof -
  note n1 = matchExtended_attachment and n2 = matchBasic_attachment
  note a = C8_filename_priority [where h = resumeHeader and e = "''r%C3%A9sum%C3%A9.pptx''"
      and n = resumeName and fb = "units ''slides.pptx''",
      THEN conjunct2, THEN conjunct1, THEN mp, OF conjI, OF matchExtended_resume decode_resume]
  note b = C8_filename_priority [where h = plainHeader and b = "''plain.pptx''"
      and fb = "units ''slides.pptx''",
      THEN conjunct2, THEN conjunct2, THEN conjunct1, THEN mp, OF conjI,
      OF matchExtended_plain matchBasic_plain]
  note c = C8_filename_priority [where h = "''attachment''" and fb = "units ''slides.pptx''",
      THEN conjunct2, THEN conjunct2, THEN conjunct2, THEN conjunct1, THEN mp, OF conjI,
      OF n1 n2]
  note d = C8_filename_priority [where h = brokenExtendedHeader and e = "''%E9''"
      and fb = "units ''slides.pptx''",
      THEN conjunct2, THEN conjunct2, THEN conjunct2, THEN conjunct2, THEN conjunct1, THEN mp,
      OF conjI, OF matchExtended_broken decode_broken]
  show ?thesis
    by (intro conjI matchExtended_resume decode_resume a matchExtended_plain matchBasic_plain b
          n1 n2 c matchExtended_broken decode_broken d)
qed

section \<open>Progress and payload of a download\<close>








text \<open>Copying the chunks into a buffer of exactly their size yields their concatenation.\<close>

lemma copyChunks_concat:
  assumes "position + length (concat chunks) \<le> length buffer"
  shows "copyChunks chunks buffer position =
           Some (take position buffer @ concat chunks
                 @ drop (position + length (concat chunks)) buffer)"
  using assms
proof (induction chunks arbitrary: buffer position)
  case Nil
  then show ?case by simp
next
  case (Cons chunk chunks)
  let ?b = "take position buffer @ chunk @ drop (position + length chunk) buffer"
  from Cons.prems have fit: "position + length chunk \<le> length buffer" by simp
  then have len: "length ?b = length buffer" by simp
  from Cons.prems len
  have "(position + length chunk) + length (concat chunks) \<le> length ?b" by simp
  from Cons.IH [OF this] fit show ?case
    by (simp add: setAt_def ac_simps)
qed

lemma assemble_concat:
  "assemble (length (concat chunks)) chunks = Some (concat chunks)"
  using copyChunks_concat [of 0 chunks "replicate (length (concat chunks)) 0"]
  by (simp add: assemble_def)

text \<open>A download whose fetch resolves in time with a good status and a body.\<close>

lemma download_reads:
  assumes "t < abortDeadline" and "ok r" and "body r = Some reads"
  shows "downloadFileWithProgress opts (Responds t r) url fb =
     (case readLoop (declaredTotal (contentLength r)) reads (0, [], effectsAtResponse url, t) of
        Inl (err, effs2, t2) \<Rightarrow> failDownload opts err effs2 t2
      | Inr (n, chunks, effs2, t2) \<Rightarrow>
          (case assemble n chunks of
             None \<Rightarrow> failDownload opts RangeError effs2 t2
           | Some allChunks \<Rightarrow>
               \<lparr>returned = True,
                dlEffects =
                  effs2
                  @ [SaveFile (resolveFilename (contentDisposition r) fb) allChunks
                       (blobType (contentType r)),
                     ToastDismiss, ToastSuccess (resolveFilename (contentDisposition r) fb)]
                  @ (if notifiesSuccess opts
                     then [NotifySuccess (resolveFilename (contentDisposition r) fb)] else [])
                  @ [SetIsDownloading False, SetProgress 0],
                finishedAt = t2\<rparr>))"
  using assms by (simp add: downloadFileWithProgress_def Let_def effectsAtResponse_def)








section \<open>The abort deadline of a download\<close>

lemma readLoop_never_aborts:
  assumes "Abort \<notin> set effs"
  shows "Abort \<notin> set (loopEffects (readLoop tb reads (n, cs, effs, t)))"
  using assms
proof (induction reads arbitrary: n cs effs t)
  case Nil
  then show ?case by simp
next
  case (Cons rd reads)
  show ?case
  proof (cases rd)
    case (ReadFails d msg)
    with Cons.prems show ?thesis by simp
  next
    case (Chunk d v)
    have "Abort \<notin> set (effs @ [Read] @
            (if totalKnown tb then [SetProgress (percent (n + length v) (the tb))] else []))"
      using Cons.prems by simp
    from Cons.IH [OF this] Chunk show ?thesis by simp
  qed
qed

text \<open>
  Once the fetch has resolved before the deadline nothing aborts the download, however
  long the reads of the body take.
\<close>

lemma download_never_aborts_once_responded:
  assumes "t < abortDeadline"
  shows "Abort \<notin> set (dlEffects (downloadFileWithProgress opts (Responds t r) url fb))"
proof (cases "ok r \<and> body r \<noteq> None")
  case False
  with assms show ?thesis
    by (cases "body r")
       (auto simp add: downloadFileWithProgress_def failDownload_def Let_def)
next
  case True
  then obtain reads where rs: "body r = Some reads" and okr: "ok r" by auto
  have start: "Abort \<notin> set (effectsAtResponse url)" by (simp add: effectsAtResponse_def)
  note loop = readLoop_never_aborts [OF start, of "declaredTotal (contentLength r)" reads 0 "[]" t]
  show ?thesis
  proof (cases "readLoop (declaredTotal (contentLength r)) reads (0, [], effectsAtResponse url, t)")
    case (Inl x)
    obtain err effs2 t2 where x: "x = (err, effs2, t2)" by (cases x) auto
    from loop Inl x show ?thesis
      by (simp add: download_reads [OF assms okr rs] failDownload_def)
  next
    case (Inr y)
    obtain n chunks effs2 t2 where y: "y = (n, chunks, effs2, t2)" by (cases y) auto
    from loop Inr y show ?thesis
      by (cases "assemble n chunks")
         (simp_all add: download_reads [OF assms okr rs] failDownload_def)
  qed
qed

text \<open>
  C3 at its failing input. The status line and the headers arrive after 100 ms, so the
  timeout is cleared then; the only chunk of the body arrives 200 seconds later. The
  download reads it 20 seconds after the deadline of 180 seconds has passed, aborts
  nothing, reports no error and returns true at 200100 ms.
\<close>

theorem C3_stalled_body_outlives_deadline:
  "downloadFileWithProgress allOptions (Responds 100 stalledResponse)
       ''/courses/7/slides'' (units ''slides.pptx'') =
     \<lparr>returned = True,
      dlEffects =
        [SetIsDownloading True, SetProgress 0, ToastLoading, SetTimeout 180000,
         FetchGet ''/api/courses/7/slides'', ClearTimeout,
         Read, SetProgress 100, Read,
         SaveFile (units ''slides.pptx'') [1, 2, 3] ''application/octet-stream'',
         ToastDismiss, ToastSuccess (units ''slides.pptx''), NotifySuccess (units ''slides.pptx''),
         SetIsDownloading False, SetProgress 0],
      finishedAt = 200100\<rparr>
   \<and> abortDeadline < 200100"
proof -
  have tot: "declaredTotal (contentLength stalledResponse) = Some 3"
    by (simp add: stalledResponse_def declaredTotal_def parseInt10_def isSpace_def
          isDigit_def Let_def)
  have early: "(100::nat) < abortDeadline" by (simp add: abortDeadline_def)
  have okr: "ok stalledResponse" by (simp add: stalledResponse_def)
  have bd: "body stalledResponse = Some [Chunk 200000 [1, 2, 3]]"
    by (simp add: stalledResponse_def)
  have asm: "assemble (Suc (Suc (Suc 0))) [[1, 2, 3 :: 8 word]] = Some [1, 2, 3]"
    using assemble_concat [of "[[1, 2, 3 :: 8 word]]"] by simp
  have url: "finalUrl ''/courses/7/slides'' = ''/api/courses/7/slides''"
    by (simp add: finalUrl_def startsWith_def)
  have "downloadFileWithProgress allOptions (Responds 100 stalledResponse)
       ''/courses/7/slides'' (units ''slides.pptx'') =
     \<lparr>returned = True,
      dlEffects =
        [SetIsDownloading True, SetProgress 0, ToastLoading, SetTimeout 180000,
         FetchGet ''/api/courses/7/slides'', ClearTimeout,
         Read, SetProgress 100, Read,
         SaveFile (units ''slides.pptx'') [1, 2, 3] ''application/octet-stream'',
         ToastDismiss, ToastSuccess (units ''slides.pptx''), NotifySuccess (units ''slides.pptx''),
         SetIsDownloading False, SetProgress 0],
      finishedAt = 200100\<rparr>"
    by (simp add: download_reads [OF early okr bd] tot asm totalKnown_def percent_def)
       (simp add: stalledResponse_def resolveFilename_def blobType_def allOptions_def
          effectsAtResponse_def url abortDeadline_def)
  then show ?thesis by (simp add: abortDeadline_def)
qed

section \<open>The completion callback between two clearings of the guard\<close>

lemma completions_append [simp]:
  "completions (xs @ ys) = completions xs + completions ys"
  by (induction xs rule: completions.induct) simp_all

lemma cleanupPolling_keeps [simp]:
  "completionCallbackFiredRef (cleanupPolling s) = completionCallbackFiredRef s"
  "observedLog (cleanupPolling s) = observedLog s"
  "isPollingRef (cleanupPolling s) = False"
  "pollingIntervalRef (cleanupPolling s) = None"
  by (simp_all add: cleanupPolling_def split: option.splits)

lemma checkTaskStatus_keeps [simp]:
  "completionCallbackFiredRef (checkTaskStatus p s) = completionCallbackFiredRef s"
  "completions (observedLog (checkTaskStatus p s)) = completions (observedLog s)"
  by (simp_all add: checkTaskStatus_def)


lemma executeCompletionCallback_fired:
  "completionCallbackFiredRef s \<Longrightarrow> fst (executeCompletionCallback p s) = s"
  by (simp add: executeCompletionCallback_def split: option.splits)


lemma executeCompletionCallback_returns:
  assumes "onComplete p = Some Returns" and "\<not> completionCallbackFiredRef s"
  shows "fst (executeCompletionCallback p s) =
           s\<lparr>completionCallbackFiredRef := True,
             observedLog := observedLog s @ [OnCompleteCalled]\<rparr>"
  using assms by (simp add: executeCompletionCallback_def callOnComplete_def)


lemma completionBudget_cleanup [simp]:
  "completionBudget (cleanupPolling s) = completionBudget s"
  by (simp add: completionBudget_def)








lemmas task_eval =
  idle_def sampleOptions_def throwingOptions_def startTask_def startAnswered_def startPolling_def
  cleanupPolling_def resetState_def fireTimer_def graceElapsed_def safetyElapsed_def
  checkTaskStatus_def statusArrives_def executeCompletionCallback_def callOnComplete_def
  clearTimer_def apiUrl_def startsWith_def graceDelay_def pollingPeriod_def safetyDelay_def
  Let_def







section \<open>A completion callback that throws\<close>




section \<open>Timers that no one can cancel\<close>

text \<open>What the guard of \<open>startPolling\<close> and \<open>stopPolling\<close> do achieve.\<close>

lemma startPolling_while_polling:
  "isPollingRef s \<Longrightarrow> startPolling s = s"
  by (simp add: startPolling_def)

lemma stopPolling_clears_kept_interval:
  assumes "pollingIntervalRef s = Some h"
  shows "\<forall>t \<in> set (timers (cleanupPolling s)). tHandle t \<noteq> h"
  using assms by (simp add: cleanupPolling_def clearTimer_def)

lemma stopPolling_when_nothing_active:
  assumes "pollingIntervalRef s = None" and "\<not> isPollingRef s"
  shows "cleanupPolling s = s"
  using assms by (simp add: cleanupPolling_def)

text \<open>
  C1 at its failing input: a second \<open>startTask\<close> half a second after the first. The
  cleanup at the start of the second call finds no interval to clear and cannot reach
  the pending timeout of the first polling, whose handle was never kept; it clears the
  polling flag, so the second polling passes the guard of \<open>startPolling\<close>. After both
  timeouts have fired two intervals are pending and two status requests are in flight.
\<close>

theorem C1_two_polling_loops_after_restart:
  "timers (taskRun sampleOptions restartDuringGrace idle) =
     [\<lparr>tHandle = 3, tKind = PollingInterval, tDue = 3000\<rparr>,
      \<lparr>tHandle = 4, tKind = SafetyTimeout, tDue = 301000\<rparr>,
      \<lparr>tHandle = 5, tKind = PollingInterval, tDue = 3500\<rparr>,
      \<lparr>tHandle = 6, tKind = SafetyTimeout, tDue = 301500\<rparr>]
   \<and> pollingLoops (taskRun sampleOptions restartDuringGrace idle) = 2
   \<and> statusInFlight (taskRun sampleOptions restartDuringGrace idle) = [3, 4]
   \<and> outstandingStatusRequests (taskRun sampleOptions restartDuringGrace idle) = 2
   \<and> pollingIntervalRef (taskRun sampleOptions restartDuringGrace idle) = Some 5"
  by (simp add: restartDuringGrace_def pollingLoops_def outstandingStatusRequests_def task_eval)

text \<open>
  C9 at its failing input: \<open>stopPolling\<close> right after \<open>startPolling\<close>. The timeout of one
  second is still pending after \<open>stopPolling\<close> has returned. When it fires, a status
  request goes out and the interval and the safety timeout are set, with the polling flag
  clear; so when that safety timeout fires in turn it does nothing and the interval
  stays.
\<close>

theorem C9_timeout_pending_after_stopPolling:
  "timers (taskRun sampleOptions stopDuringGrace idle)
     = [\<lparr>tHandle = 1, tKind = GraceTimeout, tDue = 1000\<rparr>]
   \<and> \<not> isPollingRef (taskRun sampleOptions stopDuringGrace idle)
   \<and> observedLog (taskRun sampleOptions (stopDuringGrace @ [TimerFires 1]) idle)
       = [StatusRequest 1 7]
   \<and> timers (taskRun sampleOptions (stopDuringGrace @ [TimerFires 1]) idle)
       = [\<lparr>tHandle = 2, tKind = PollingInterval, tDue = 3000\<rparr>,
          \<lparr>tHandle = 3, tKind = SafetyTimeout, tDue = 301000\<rparr>]
   \<and> \<not> isPollingRef (taskRun sampleOptions (stopDuringGrace @ [TimerFires 1]) idle)
   \<and> timers (taskRun sampleOptions (stopDuringGrace @ [TimerFires 1, TimerFires 3]) idle)
       = [\<lparr>tHandle = 2, tKind = PollingInterval, tDue = 3000\<rparr>]"
  by (simp add: stopDuringGrace_def task_eval)

end
